theory Spec2Isabelle
  imports Main
begin

section \<open>Errors and characters\<close>

text \<open>
  A Go \<^verbatim>\<open>error\<close> is modelled by its message (what \<^verbatim>\<open>err.Error()\<close> and the verb
  \<^verbatim>\<open>%v\<close> print). A successful call of a function returning \<^verbatim>\<open>(T, error)\<close> is
  \<open>Inr\<close>, a failing one \<open>Inl\<close>; a function returning only \<^verbatim>\<open>error\<close> gives
  \<open>error option\<close>, \<open>None\<close> being \<^verbatim>\<open>nil\<close>.

  Strings are lists of bytes. The matcher and the replacement templates below are those
  of Go on ASCII text, where a byte is a rune and every rune has width one; beyond
  ASCII Go works on decoded runes, which is not modelled, so every property of the
  matcher is stated for ASCII sources, destinations and listings only.
\<close>

datatype error = Error string

fun message :: "error \<Rightarrow> string" where
  "message (Error s) = s"

definition bs :: char where
  "bs = CHR 0x5C"

definition ascii :: "string \<Rightarrow> bool" where
  "ascii s = list_all (\<lambda>c. (of_char c :: nat) < 128) s"

section \<open>The library functions the source calls\<close>

subsection \<open>Package strings\<close>

definition HasPrefix :: "string \<Rightarrow> string \<Rightarrow> bool" where
  "HasPrefix s p = (take (length p) s = p)"

text \<open>\<^verbatim>\<open>strings.Count\<close>: the number of non-overlapping instances of \<open>substr\<close>;
  for the empty \<open>substr\<close>, one more than the number of characters.\<close>

fun Count :: "string \<Rightarrow> string \<Rightarrow> nat" where
  "Count [] substr = (if substr = [] then 1 else 0)"
| "Count (c # cs) substr =
     (if substr = [] then length (c # cs) + 1
      else if HasPrefix (c # cs) substr
        then 1 + Count (drop (length substr) (c # cs)) substr
      else Count cs substr)"

text \<open>\<^verbatim>\<open>strings.ReplaceAll\<close>: every non-overlapping instance of \<open>old\<close>, scanning
  from the left, replaced by \<open>new\<close>; an empty \<open>old\<close> matches before every character
  and at the end.\<close>

fun replace_scan :: "string \<Rightarrow> string \<Rightarrow> string \<Rightarrow> string" where
  "replace_scan [] old new = (if old = [] then new else [])"
| "replace_scan (c # cs) old new =
     (if old = [] then new @ concat (map (\<lambda>x. x # new) (c # cs))
      else if HasPrefix (c # cs) old
        then new @ replace_scan (drop (length old) (c # cs)) old new
      else c # replace_scan cs old new)"

definition ReplaceAll :: "string \<Rightarrow> string \<Rightarrow> string \<Rightarrow> string" where
  "ReplaceAll s old new = (if old = new then s else replace_scan s old new)"

text \<open>\<^verbatim>\<open>strings.Join\<close>.\<close>

fun Join :: "string list \<Rightarrow> string \<Rightarrow> string" where
  "Join [] sep = []"
| "Join [x] sep = x"
| "Join (x # y # ys) sep = x @ sep @ Join (y # ys) sep"

subsection \<open>Package regexp: quoting and compiling\<close>

text \<open>The metacharacters of \<^verbatim>\<open>regexp.QuoteMeta\<close>: a backslash
  and \<^verbatim>\<open>.+*?()|[]{}^$\<close>.\<close>

definition special :: "char \<Rightarrow> bool" where
  "special c = (c \<in> set (bs # ''.+*?()|[]{}^$''))"

definition QuoteMeta :: "string \<Rightarrow> string" where
  "QuoteMeta s = concat (map (\<lambda>c. if special c then [bs, c] else [c]) s)"

text \<open>
  A compiled expression, for the fragment of the syntax the source can produce: a
  sequence of literal characters and of capturing groups \<^verbatim>\<open>([^...]*)\<close>, a greedy
  star over a negated character class. \<open>StarNot cls\<close> is such a group, \<open>cls\<close> the
  characters the class lists.
\<close>

datatype node = Lit char | StarNot "char list"

text \<open>The items of a character class up to its closing bracket: a character, or a
  backslash and a metacharacter. Ranges and named classes are outside the fragment.\<close>

fun parse_class :: "string \<Rightarrow> (char list \<times> string) option" where
  "parse_class [] = None"
| "parse_class [c] = (if c = CHR '']'' then Some ([], []) else None)"
| "parse_class (c # d # ds) =
     (if c = CHR '']'' then Some ([], d # ds)
      else if c = bs then
        (if special d
         then (case parse_class ds of None \<Rightarrow> None | Some (xs, r) \<Rightarrow> Some (d # xs, r))
         else None)
      else if c = CHR ''-'' \<or> c = CHR ''['' then None
      else (case parse_class (d # ds) of None \<Rightarrow> None | Some (xs, r) \<Rightarrow> Some (c # xs, r)))"

text \<open>What follows an opening parenthesis: \<^verbatim>\<open>[^\<close>, the class,
  \<^verbatim>\<open>*)\<close>.\<close>

fun parse_group :: "string \<Rightarrow> (node \<times> string) option" where
  "parse_group (x # y # zs) =
     (if x = CHR ''['' \<and> y = CHR ''^'' then
        (case parse_class zs of
           Some (cls, p # q # r) \<Rightarrow>
             if p = CHR ''*'' \<and> q = CHR '')'' then Some (StarNot cls, r) else None
         | _ \<Rightarrow> None)
      else None)"
| "parse_group _ = None"

lemma parse_class_length:
  "parse_class s = Some (xs, r) \<Longrightarrow> length r < length s"
  by (induction s arbitrary: xs r rule: parse_class.induct)
     (auto split: if_splits option.splits)

lemma parse_group_length:
  "parse_group s = Some (n, r) \<Longrightarrow> length r < length s"
  by (cases s rule: parse_group.cases)
     (auto split: if_splits option.splits list.splits dest!: parse_class_length)

function parse :: "string \<Rightarrow> node list option" where
  "parse [] = Some []"
| "parse (c # cs) =
     (if c = bs then
        (case cs of
           [] \<Rightarrow> None
         | d # ds \<Rightarrow> if special d then map_option ((#) (Lit d)) (parse ds) else None)
      else if c = CHR ''('' then
        (case parse_group cs of
           None \<Rightarrow> None
         | Some (n, r) \<Rightarrow> map_option ((#) n) (parse r))
      else if special c then None
      else map_option ((#) (Lit c)) (parse cs))"
  by pat_completeness auto
termination
  by (relation "measure length") (auto dest: parse_group_length)

text \<open>
  The size of the UTF-8 encoding a text begins with, \<open>0\<close> when it begins with a byte
  that is no such encoding (\<^verbatim>\<open>utf8.DecodeRuneInString\<close> then returns
  \<^verbatim>\<open>RuneError\<close> with size one).
\<close>

definition byte_in :: "char \<Rightarrow> nat \<Rightarrow> nat \<Rightarrow> bool" where
  "byte_in c lo hi = (lo \<le> of_char c \<and> (of_char c :: nat) \<le> hi)"

fun rune_size :: "string \<Rightarrow> nat" where
  "rune_size [] = 0"
| "rune_size (b0 # rest) =
     (if byte_in b0 0x00 0x7F then 1
      else if byte_in b0 0xC2 0xDF then
        (case rest of
           b1 # _ \<Rightarrow> if byte_in b1 0x80 0xBF then 2 else 0
         | _ \<Rightarrow> 0)
      else if byte_in b0 0xE0 0xEF then
        (case rest of
           b1 # b2 # _ \<Rightarrow>
             if byte_in b1 (if b0 = CHR 0xE0 then 0xA0 else 0x80)
                           (if b0 = CHR 0xED then 0x9F else 0xBF) \<and>
                byte_in b2 0x80 0xBF
             then 3 else 0
         | _ \<Rightarrow> 0)
      else if byte_in b0 0xF0 0xF4 then
        (case rest of
           b1 # b2 # b3 # _ \<Rightarrow>
             if byte_in b1 (if b0 = CHR 0xF0 then 0x90 else 0x80)
                           (if b0 = CHR 0xF4 then 0x8F else 0xBF) \<and>
                byte_in b2 0x80 0xBF \<and> byte_in b3 0x80 0xBF
             then 4 else 0
         | _ \<Rightarrow> 0)
      else 0)"

text \<open>\<^verbatim>\<open>checkUTF8\<close> of the parser: \<open>None\<close> for valid UTF-8, otherwise the text from
  the first invalid byte on, which the error reports.\<close>

function checkUTF8 :: "string \<Rightarrow> string option" where
  "checkUTF8 s =
     (if s = [] then None
      else if rune_size s = 0 then Some s
      else checkUTF8 (drop (rune_size s) s))"
  by pat_completeness auto
termination
  by (relation "measure length") auto

declare checkUTF8.simps [simp del]

text \<open>
  \<^verbatim>\<open>regexp.Compile\<close>. A pattern that is not valid UTF-8 is refused with the error
  \<^verbatim>\<open>invalid UTF-8\<close>. On the fragment the parsed expression is returned; any other
  pattern is reported as a syntax error (the source produces none, see
  \<open>parse_pattern\<close>).
\<close>

definition Compile :: "string \<Rightarrow> error + node list" where
  "Compile p =
     (case checkUTF8 p of
        Some bad \<Rightarrow>
          Inl (Error (''error parsing regexp: invalid UTF-8: '' @ [CHR 0x60] @ bad @ [CHR 0x60]))
      | None \<Rightarrow>
          (case parse p of
             None \<Rightarrow> Inl (Error ''error parsing regexp'')
           | Some re \<Rightarrow> Inr re))"

subsection \<open>Package regexp: matching\<close>

text \<open>
  The matcher compares bytes, which on ASCII text is Go's matching of runes. Go's
  matcher is leftmost-first: the match begins as early as possible and, among the
  matches beginning there, is the one a backtracking search finds first. A greedy star
  tries the longest run first. \<open>first_some f n\<close> is that search over the lengths
  \<open>n, n - 1, \<dots>, 0\<close>.
\<close>

fun first_some :: "(nat \<Rightarrow> 'a option) \<Rightarrow> nat \<Rightarrow> 'a option" where
  "first_some f 0 = f 0"
| "first_some f (Suc n) = (case f (Suc n) of Some r \<Rightarrow> Some r | None \<Rightarrow> first_some f n)"

text \<open>\<open>match_here re s\<close> matches \<open>re\<close> at the start of \<open>s\<close>: the text of each group,
  in order, and the input left after the match.\<close>

fun match_here :: "node list \<Rightarrow> string \<Rightarrow> (string list \<times> string) option" where
  "match_here [] s = Some ([], s)"
| "match_here (Lit c # re) [] = None"
| "match_here (Lit c # re) (x # xs) = (if x = c then match_here re xs else None)"
| "match_here (StarNot cls # re) s =
     first_some
       (\<lambda>k. case match_here re (drop k s) of
              None \<Rightarrow> None
            | Some (caps, r) \<Rightarrow> Some (take k s # caps, r))
       (length (takeWhile (\<lambda>x. x \<notin> set cls) s))"

text \<open>The leftmost match in \<open>s\<close>, whose first character has offset
  \<open>off\<close>.\<close>

fun search :: "node list \<Rightarrow> string \<Rightarrow> nat \<Rightarrow> (nat \<times> string list \<times> string) option" where
  "search re [] off =
     (case match_here re [] of None \<Rightarrow> None | Some (caps, r) \<Rightarrow> Some (off, caps, r))"
| "search re (c # cs) off =
     (case match_here re (c # cs) of
        Some (caps, r) \<Rightarrow> Some (off, caps, r)
      | None \<Rightarrow> search re cs (Suc off))"

text \<open>\<^verbatim>\<open>doExecute\<close> from position \<open>pos\<close>: where the match begins, where it ends, and
  the text of its groups.\<close>

definition doExecute :: "node list \<Rightarrow> string \<Rightarrow> nat \<Rightarrow> (nat \<times> nat \<times> string list) option" where
  "doExecute re s pos =
     (if length s < pos then None
      else case search re (drop pos s) pos of
             None \<Rightarrow> None
           | Some (b, caps, r) \<Rightarrow> Some (b, length s - length r, caps))"

definition substr :: "string \<Rightarrow> nat \<Rightarrow> nat \<Rightarrow> string" where
  "substr s b e = take (e - b) (drop b s)"

text \<open>
  \<^verbatim>\<open>allMatches\<close>, the loop behind every \<^verbatim>\<open>FindAll\<close> function:
  \<^verbatim>\<open>for pos, i, prevMatchEnd := 0, 0, -1; i < n && pos <= end; { ... i++ }\<close>.
  An empty match right after the previous match is not delivered; after an empty match
  the position moves on by one character.
\<close>

function allMatches ::
  "node list \<Rightarrow> string \<Rightarrow> nat \<Rightarrow> nat \<Rightarrow> nat \<Rightarrow> int \<Rightarrow> (nat \<times> nat \<times> string list) list" where
  "allMatches re s n pos i prevMatchEnd =
     (if i < n \<and> pos \<le> length s then
        (case doExecute re s pos of
           None \<Rightarrow> []
         | Some (b, e, caps) \<Rightarrow>
             (if e = pos then
                (if int b = prevMatchEnd then [] else [(b, e, caps)]) @
                allMatches re s n (if pos < length s then pos + 1 else length s + 1)
                  (i + 1) (int e)
              else (b, e, caps) # allMatches re s n e (i + 1) (int e)))
      else [])"
  by pat_completeness auto
termination
  by (relation "measure (\<lambda>(re, s, n, pos, i, prevMatchEnd). n - i)") auto

declare allMatches.simps [simp del]

text \<open>\<^verbatim>\<open>FindAllString\<close>: the texts of the matches; \<open>None\<close> is the \<^verbatim>\<open>nil\<close> slice
  returned when there is no match. A negative \<open>n\<close> asks for all matches.\<close>

definition FindAllString :: "node list \<Rightarrow> string \<Rightarrow> int \<Rightarrow> string list option" where
  "FindAllString re s n =
     (let n' = (if n < 0 then length s + 1 else nat n);
          ms = allMatches re s n' 0 0 (- 1)
      in if ms = [] then None else Some (map (\<lambda>(b, e, caps). substr s b e) ms))"

subsection \<open>Package regexp: replacement templates\<close>

text \<open>The characters of a name in a template: the letters and digits of ASCII and
  the underscore. (Go asks \<^verbatim>\<open>unicode.IsLetter\<close> and \<^verbatim>\<open>unicode.IsDigit\<close> of each
  rune, which on ASCII is this.)\<close>

definition is_name_char :: "char \<Rightarrow> bool" where
  "is_name_char c =
     (let k = (of_char c :: nat)
      in (97 \<le> k \<and> k \<le> 122) \<or> (65 \<le> k \<and> k \<le> 90) \<or> (48 \<le> k \<and> k \<le> 57) \<or> c = CHR ''_'')"

text \<open>The number a name denotes, \<open>- 1\<close> when it is not a number.\<close>

fun parse_num :: "string \<Rightarrow> int \<Rightarrow> int" where
  "parse_num [] num = num"
| "parse_num (c # cs) num =
     (if (of_char c :: nat) < 48 \<or> 57 < (of_char c :: nat) \<or> 100000000 \<le> num then - 1
      else parse_num cs (num * 10 + int (of_char c) - 48))"

text \<open>\<^verbatim>\<open>extract\<close>: the name after a dollar sign, bare or in braces, its number, and
  the rest of the template. \<open>None\<close> is \<^verbatim>\<open>ok = false\<close>.\<close>

definition extractName :: "string \<Rightarrow> (string \<times> int \<times> string) option" where
  "extractName str0 =
     (if str0 = [] then None
      else
        let brace = (hd str0 = CHR ''{'');
            str = (if brace then tl str0 else str0);
            name = takeWhile is_name_char str;
            i = length name
        in if i = 0 then None
           else if brace \<and> (length str \<le> i \<or> str ! i \<noteq> CHR ''}'') then None
           else
             let num = (if hd name = CHR ''0'' \<and> 1 < length name then - 1
                        else parse_num name 0)
             in Some (name, num, drop (if brace then i + 1 else i) str))"

text \<open>\<^verbatim>\<open>strings.Cut\<close> at a character.\<close>

definition Cut :: "string \<Rightarrow> char \<Rightarrow> (string \<times> string) option" where
  "Cut s c =
     (if c \<in> set s
      then Some (takeWhile (\<lambda>x. x \<noteq> c) s, tl (dropWhile (\<lambda>x. x \<noteq> c) s))
      else None)"

lemma Cut_length: "Cut s c = Some (before, after) \<Longrightarrow> length after < length s"
proof -
  assume h: "Cut s c = Some (before, after)"
  then have "c \<in> set s" and a: "after = tl (dropWhile (\<lambda>x. x \<noteq> c) s)"
    by (auto simp: Cut_def split: if_splits)
  then have "dropWhile (\<lambda>x. x \<noteq> c) s \<noteq> []" by auto
  then have "length after < length (dropWhile (\<lambda>x. x \<noteq> c) s)"
    using a by (cases "dropWhile (\<lambda>x. x \<noteq> c) s") auto
  also have "\<dots> \<le> length s" by (rule length_dropWhile_le)
  finally show ?thesis .
qed

lemma extractName_length: "extractName s = Some (name, num, rest) \<Longrightarrow> length rest < length s"
  by (cases s) (auto simp: extractName_def Let_def split: if_splits)

text \<open>
  \<^verbatim>\<open>expand\<close>: the template with \<^verbatim>\<open>$name\<close> and \<^verbatim>\<open>${name}\<close> replaced. \<open>m\<close> holds the
  text of the whole match and then of each group, so a number indexes it; the
  expression has no named group, so any other name gives the empty string.
  \<^verbatim>\<open>$$\<close> is a dollar sign, and a dollar sign with no name after it stands for itself.
\<close>

function expand :: "string \<Rightarrow> string list \<Rightarrow> string" where
  "expand template m =
     (if template = [] then []
      else case Cut template (CHR ''$'') of
             None \<Rightarrow> template
           | Some (before, after) \<Rightarrow>
               before @
               (if after \<noteq> [] \<and> hd after = CHR ''$''
                then CHR ''$'' # expand (tl after) m
                else case extractName after of
                       None \<Rightarrow> CHR ''$'' # expand after m
                     | Some (name, num, rest) \<Rightarrow>
                         (if 0 \<le> num \<and> nat num < length m then m ! nat num else []) @
                         expand rest m))"
  by pat_completeness auto
termination
proof (relation "measure (\<lambda>(template, m). length template)", goal_cases)
  case 1
  show ?case by simp
next
  case (2 template m x2 before after)
  then show ?case using Cut_length [of template "CHR ''$''" before after]
    by (cases after) auto
next
  case (3 template m x2 before after)
  then show ?case using Cut_length [of template "CHR ''$''" before after] by auto
next
  case (4 template m x2 before after x2a name y num rest)
  then show ?case
    using Cut_length [of template "CHR ''$''" before after]
      extractName_length [of after name num rest] by auto
qed

declare expand.simps [simp del]

subsection \<open>Package regexp: where a match can lie\<close>

lemma first_some_SomeD:
  "first_some f n = Some r \<Longrightarrow> \<exists>k\<le>n. f k = Some r"
  by (induction n) (auto split: option.splits intro: le_SucI)

lemma match_here_suffix:
  "match_here re s = Some (caps, r) \<Longrightarrow> \<exists>m. s = m @ r"
proof (induction re s arbitrary: caps r rule: match_here.induct)
  case (1 s)
  then show ?case by simp
next
  case (2 c re)
  then show ?case by simp
next
  case (3 c re x xs)
  then show ?case by (auto split: if_splits intro: Cons_eq_appendI)
next
  case (4 cls re s)
  from 4(2) obtain k where k: "(case match_here re (drop k s) of
              None \<Rightarrow> None
            | Some (caps, r) \<Rightarrow> Some (take k s # caps, r)) = Some (caps, r)"
    by (auto dest!: first_some_SomeD)
  then obtain caps' where "match_here re (drop k s) = Some (caps', r)"
    by (auto split: option.splits)
  from 4(1) [OF this] obtain m where "drop k s = m @ r" by blast
  then have "s = (take k s @ m) @ r" by (metis append.assoc append_take_drop_id)
  then show ?case by blast
qed

lemma search_bounds:
  "search re s off = Some (b, caps, r) \<Longrightarrow> off \<le> b \<and> b + length r \<le> off + length s"
proof (induction s arbitrary: off)
  case Nil
  then show ?case by (auto split: option.splits dest: match_here_suffix)
next
  case (Cons c cs)
  show ?case
  proof (cases "match_here re (c # cs)")
    case None
    with Cons.prems have "search re cs (Suc off) = Some (b, caps, r)" by simp
    from Cons.IH [OF this] show ?thesis by simp
  next
    case (Some a)
    with Cons.prems have "match_here re (c # cs) = Some (caps, r)" and "b = off"
      by (auto split: prod.splits)
    then show ?thesis by (auto dest!: match_here_suffix) (metis length_append length_Cons le_add2)
  qed
qed

lemma doExecute_bounds:
  "doExecute re s pos = Some (b, e, caps) \<Longrightarrow> pos \<le> b \<and> b \<le> e \<and> e \<le> length s"
  by (auto simp: doExecute_def split: if_splits option.splits dest!: search_bounds)

subsection \<open>Package regexp: replacing\<close>

text \<open>
  \<^verbatim>\<open>replaceAll\<close>, the loop of \<^verbatim>\<open>ReplaceAllString\<close>:
  \<^verbatim>\<open>for searchPos <= len(src) { ... }\<close>. The text between matches is copied, each
  match is replaced by the expanded template (but not an empty match right after
  another match), and the search always moves on by at least one character.
\<close>

function replaceAll :: "node list \<Rightarrow> string \<Rightarrow> string \<Rightarrow> nat \<Rightarrow> nat \<Rightarrow> string" where
  "replaceAll re src repl lastMatchEnd searchPos =
     (if searchPos \<le> length src then
        (case doExecute re src searchPos of
           None \<Rightarrow> drop lastMatchEnd src
         | Some (b, e, caps) \<Rightarrow>
             substr src lastMatchEnd b @
             (if lastMatchEnd < e \<or> b = 0 then expand repl (substr src b e # caps) else []) @
             replaceAll re src repl e
               (let width = (if searchPos < length src then 1 else 0)
                in if e < searchPos + width then searchPos + width
                   else if e < searchPos + 1 then searchPos + 1
                   else e))
      else drop lastMatchEnd src)"
  by pat_completeness auto
termination
  by (relation "measure (\<lambda>(re, src, repl, lastMatchEnd, searchPos). length src + 1 - searchPos)")
     (auto simp: Let_def dest!: doExecute_bounds)

declare replaceAll.simps [simp del]

definition ReplaceAllString :: "node list \<Rightarrow> string \<Rightarrow> string \<Rightarrow> string" where
  "ReplaceAllString re src repl = replaceAll re src repl 0 0"

text \<open>The three functions of the package that work on a compiled expression, as the
  source receives them.\<close>

record 're regexp_pkg =
  pkg_Compile :: "string \<Rightarrow> error + 're"
  pkg_FindAllString :: "'re \<Rightarrow> string \<Rightarrow> int \<Rightarrow> string list option"
  pkg_ReplaceAllString :: "'re \<Rightarrow> string \<Rightarrow> string \<Rightarrow> string"

definition go_regexp :: "node list regexp_pkg" where
  "go_regexp =
     \<lparr>pkg_Compile = Compile,
      pkg_FindAllString = FindAllString,
      pkg_ReplaceAllString = ReplaceAllString\<rparr>"

section \<open>state_xmv_action.go\<close>

record StateXMvAction =
  source :: string
  destination :: string

text \<open>A \<^verbatim>\<open>StateMvAction\<close>, the plain move, holds a source and a
  destination address.\<close>

datatype StateMvAction = NewStateMvAction (mv_source: string) (mv_destination: string)

definition NewStateXMvAction :: "string \<Rightarrow> string \<Rightarrow> StateXMvAction" where
  "NewStateXMvAction src dst = \<lparr>source = src, destination = dst\<rparr>"

text \<open>The constant \<^verbatim>\<open>matchWildcardRegex\<close>, as the Go string literal denotes it: an
  opening parenthesis, \<^verbatim>\<open>[^\<close>, an escaped \<^verbatim>\<open>]\<close>, an escaped \<^verbatim>\<open>[\<close>, the characters
  tab, newline, vertical tab, form feed, carriage return and space, then \<^verbatim>\<open>]*)\<close>.\<close>

definition matchWildcardRegex :: string where
  "matchWildcardRegex =
     ''([^'' @ [bs] @ '']'' @ [bs] @ ''['' @
     [CHR 0x09, CHR 0x0A, CHR 0x0B, CHR 0x0C, CHR 0x0D, CHR '' ''] @ '']*)''"

definition wildcardChar :: string where
  "wildcardChar = ''*''"

definition nrOfWildcards :: "StateXMvAction \<Rightarrow> nat" where
  "nrOfWildcards a = Count (source a) wildcardChar"

definition makeSourceMatchPattern :: "string \<Rightarrow> string" where
  "makeSourceMatchPattern s =
     (let safeString = QuoteMeta s;
          quotedWildCardChar = QuoteMeta wildcardChar
      in ReplaceAll safeString quotedWildCardChar matchWildcardRegex)"

definition makeSrcRegex :: "'re regexp_pkg \<Rightarrow> string \<Rightarrow> error + 're" where
  "makeSrcRegex rx src =
     (let regPattern = makeSourceMatchPattern src
      in case pkg_Compile rx regPattern of
           Inl err \<Rightarrow>
             Inl (Error (''could not make pattern out of '' @ src @ '' ('' @ regPattern @
                         '') due to '' @ message err))
         | Inr r \<Rightarrow> Inr r)"

definition getMatchingSourcesFromState ::
  "'re regexp_pkg \<Rightarrow> StateXMvAction \<Rightarrow> string list \<Rightarrow> error + string list" where
  "getMatchingSourcesFromState rx a stateList =
     (case makeSrcRegex rx (source a) of
        Inl e \<Rightarrow> Inl e
      | Inr r \<Rightarrow>
          (case pkg_FindAllString rx r (Join stateList [CHR 0x0A]) (- 1) of
             None \<Rightarrow> Inr []
           | Some wildcardMatches \<Rightarrow> Inr wildcardMatches))"

definition getDestinationForStateSrc ::
  "'re regexp_pkg \<Rightarrow> StateXMvAction \<Rightarrow> string \<Rightarrow> error + string" where
  "getDestinationForStateSrc rx a stateSource =
     (case makeSrcRegex rx (source a) of
        Inl e \<Rightarrow> Inl e
      | Inr r \<Rightarrow> Inr (pkg_ReplaceAllString rx r stateSource (destination a)))"

text \<open>The loop of \<^verbatim>\<open>getStateMvActionsForStateList\<close> over the matching sources: the
  first destination that cannot be computed ends it with that error.\<close>

fun mvActionsForSources ::
  "'re regexp_pkg \<Rightarrow> StateXMvAction \<Rightarrow> string list \<Rightarrow> error + StateMvAction list" where
  "mvActionsForSources rx a [] = Inr []"
| "mvActionsForSources rx a (matchingSource # rest) =
     (case getDestinationForStateSrc rx a matchingSource of
        Inl e2 \<Rightarrow> Inl e2
      | Inr dst \<Rightarrow>
          (case mvActionsForSources rx a rest of
             Inl e \<Rightarrow> Inl e
           | Inr response \<Rightarrow> Inr (NewStateMvAction matchingSource dst # response)))"

definition getStateMvActionsForStateList ::
  "'re regexp_pkg \<Rightarrow> StateXMvAction \<Rightarrow> string list \<Rightarrow> error + StateMvAction list" where
  "getStateMvActionsForStateList rx a stateList =
     (if nrOfWildcards a = 0 then Inr [NewStateMvAction (source a) (destination a)]
      else case getMatchingSourcesFromState rx a stateList of
             Inl e \<Rightarrow> Inl e
           | Inr matchingSources \<Rightarrow> mvActionsForSources rx a matchingSources)"

subsection \<open>The state update\<close>

text \<open>
  The Terraform side is a collaborator: \<^verbatim>\<open>tf.StateList\<close>, and the
  \<^verbatim>\<open>StateUpdate\<close> method of a plain \<^verbatim>\<open>StateMvAction\<close>, which moves one address in a
  state and returns the new state. The state \<open>'st\<close> is opaque. Every function below
  returns, beside its result, the calls it made on the collaborator, in order.
\<close>

record 'st TerraformCLI =
  StateList :: "'st \<Rightarrow> error + string list"
  StateMvAction_StateUpdate :: "StateMvAction \<Rightarrow> 'st \<Rightarrow> error + 'st"

datatype tf_call = CallStateList | CallStateMv StateMvAction

definition generateMvActions ::
  "'re regexp_pkg \<Rightarrow> 'st TerraformCLI \<Rightarrow> StateXMvAction \<Rightarrow> 'st \<Rightarrow>
     (error + StateMvAction list) \<times> tf_call list" where
  "generateMvActions rx tf a state =
     (case StateList tf state of
        Inl err \<Rightarrow> (Inl err, [CallStateList])
      | Inr stateList \<Rightarrow> (getStateMvActionsForStateList rx a stateList, [CallStateList]))"

text \<open>The loop of \<^verbatim>\<open>StateUpdate\<close> over the move actions. An error stands for the
  pair of a \<^verbatim>\<open>nil\<close> state and that error.\<close>

fun applyMvActions ::
  "'st TerraformCLI \<Rightarrow> StateMvAction list \<Rightarrow> 'st \<Rightarrow> (error + 'st) \<times> tf_call list" where
  "applyMvActions tf [] state = (Inr state, [])"
| "applyMvActions tf (action # rest) state =
     (case StateMvAction_StateUpdate tf action state of
        Inl err \<Rightarrow> (Inl err, [CallStateMv action])
      | Inr state' \<Rightarrow>
          (case applyMvActions tf rest state' of
             (res, calls) \<Rightarrow> (res, CallStateMv action # calls)))"

definition StateUpdate ::
  "'re regexp_pkg \<Rightarrow> 'st TerraformCLI \<Rightarrow> StateXMvAction \<Rightarrow> 'st \<Rightarrow>
     (error + 'st) \<times> tf_call list" where
  "StateUpdate rx tf a state =
     (case generateMvActions rx tf a state of
        (Inl err, calls) \<Rightarrow> (Inl err, calls)
      | (Inr stateMvActions, calls) \<Rightarrow>
          (case applyMvActions tf stateMvActions state of
             (res, calls') \<Rightarrow> (res, calls @ calls')))"

section \<open>The history-aware runner\<close>

text \<open>
  The runner works on collaborators that are not part of this file: the history
  controller \<^verbatim>\<open>hc\<close> (its state is \<open>'h\<close>), the file runner (\<open>'fr\<close>) and
  \<^verbatim>\<open>filepath.Join\<close>. What a migration does, it does to the world \<open>'w\<close>. Every function
  returns the calls it made, in order; a file runner is named by its path. Logging is
  left out.
\<close>

record ('h, 'fr, 'w) collaborators =
  AlreadyApplied :: "'h \<Rightarrow> string \<Rightarrow> bool"
  UnappliedMigrations :: "'h \<Rightarrow> string list"
  AddRecord :: "string \<Rightarrow> string \<Rightarrow> string \<Rightarrow> 'h \<Rightarrow> 'h"
  HistoryLength :: "'h \<Rightarrow> nat"
  Save :: "'h \<Rightarrow> 'w \<Rightarrow> error option \<times> 'w"
  NewFileRunner :: "string \<Rightarrow> 'w \<Rightarrow> error + 'fr"
  FileRunner_Plan :: "'fr \<Rightarrow> 'w \<Rightarrow> error option \<times> 'w"
  FileRunner_Apply :: "'fr \<Rightarrow> 'w \<Rightarrow> error option \<times> 'w"
  MigrationConfig :: "'fr \<Rightarrow> string \<times> string"
  filepath_Join :: "string \<Rightarrow> string \<Rightarrow> string"

datatype call =
  CallNewFileRunner string
| CallPlan string
| CallApply string
| CallAddRecord string
| CallSave

text \<open>The runner: its file name (empty in directory mode), the migration directory of
  its configuration, and the state of its history controller.\<close>

record 'h HistoryRunner =
  filename :: string
  migrationDir :: string
  hc :: 'h

definition resolvePath ::
  "('h, 'fr, 'w) collaborators \<Rightarrow> 'h HistoryRunner \<Rightarrow> string \<Rightarrow> string" where
  "resolvePath env r name = filepath_Join env (migrationDir r) name"

definition planFile ::
  "('h, 'fr, 'w) collaborators \<Rightarrow> 'h HistoryRunner \<Rightarrow> string \<Rightarrow> 'w \<Rightarrow>
     error option \<times> 'w \<times> call list" where
  "planFile env r name w =
     (if AlreadyApplied env (hc r) name
      then (Some (Error (''a migration has already been applied: '' @ name)), w, [])
      else
        let path = resolvePath env r name
        in case NewFileRunner env path w of
             Inl err \<Rightarrow> (Some err, w, [CallNewFileRunner path])
           | Inr fr \<Rightarrow>
               (case FileRunner_Plan env fr w of
                  (res, w') \<Rightarrow> (res, w', [CallNewFileRunner path, CallPlan path])))"

text \<open>The loop of \<^verbatim>\<open>planDir\<close>.\<close>

fun planFiles ::
  "('h, 'fr, 'w) collaborators \<Rightarrow> 'h HistoryRunner \<Rightarrow> string list \<Rightarrow> 'w \<Rightarrow>
     error option \<times> 'w \<times> call list" where
  "planFiles env r [] w = (None, w, [])"
| "planFiles env r (name # rest) w =
     (case planFile env r name w of
        (Some err, w', calls) \<Rightarrow> (Some err, w', calls)
      | (None, w', calls) \<Rightarrow>
          (case planFiles env r rest w' of
             (res, w'', calls') \<Rightarrow> (res, w'', calls @ calls')))"

definition planDir ::
  "('h, 'fr, 'w) collaborators \<Rightarrow> 'h HistoryRunner \<Rightarrow> 'w \<Rightarrow>
     error option \<times> 'w \<times> call list" where
  "planDir env r w =
     (let unapplied = UnappliedMigrations env (hc r)
      in if length unapplied = 0 then (None, w, [])
         else planFiles env r unapplied w)"

definition Plan ::
  "('h, 'fr, 'w) collaborators \<Rightarrow> 'h HistoryRunner \<Rightarrow> 'w \<Rightarrow>
     error option \<times> 'w \<times> call list" where
  "Plan env r w =
     (if length (filename r) \<noteq> 0 then planFile env r (filename r) w
      else planDir env r w)"

definition applyFile ::
  "('h, 'fr, 'w) collaborators \<Rightarrow> 'h HistoryRunner \<Rightarrow> string \<Rightarrow> 'w \<Rightarrow>
     error option \<times> 'h HistoryRunner \<times> 'w \<times> call list" where
  "applyFile env r name w =
     (if AlreadyApplied env (hc r) name
      then (Some (Error (''a migration has already been applied: '' @ name)), r, w, [])
      else
        let path = resolvePath env r name
        in case NewFileRunner env path w of
             Inl err \<Rightarrow> (Some err, r, w, [CallNewFileRunner path])
           | Inr fr \<Rightarrow>
               (case FileRunner_Apply env fr w of
                  (Some err, w') \<Rightarrow> (Some err, r, w', [CallNewFileRunner path, CallApply path])
                | (None, w') \<Rightarrow>
                    (case MigrationConfig env fr of
                       (mcType, mcName) \<Rightarrow>
                         (None, r\<lparr>hc := AddRecord env name mcType mcName (hc r)\<rparr>, w',
                          [CallNewFileRunner path, CallApply path, CallAddRecord name]))))"

text \<open>The loop of \<^verbatim>\<open>applyDir\<close>.\<close>

fun applyFiles ::
  "('h, 'fr, 'w) collaborators \<Rightarrow> 'h HistoryRunner \<Rightarrow> string list \<Rightarrow> 'w \<Rightarrow>
     error option \<times> 'h HistoryRunner \<times> 'w \<times> call list" where
  "applyFiles env r [] w = (None, r, w, [])"
| "applyFiles env r (name # rest) w =
     (case applyFile env r name w of
        (Some err, r', w', calls) \<Rightarrow> (Some err, r', w', calls)
      | (None, r', w', calls) \<Rightarrow>
          (case applyFiles env r' rest w' of
             (res, r'', w'', calls') \<Rightarrow> (res, r'', w'', calls @ calls')))"

definition applyDir ::
  "('h, 'fr, 'w) collaborators \<Rightarrow> 'h HistoryRunner \<Rightarrow> 'w \<Rightarrow>
     error option \<times> 'h HistoryRunner \<times> 'w \<times> call list" where
  "applyDir env r w =
     (let unapplied = UnappliedMigrations env (hc r)
      in if length unapplied = 0 then (None, r, w, [])
         else applyFiles env r unapplied w)"

text \<open>\<^verbatim>\<open>Apply\<close> is its body, the statements after the \<^verbatim>\<open>defer\<close>, followed by the
  deferred function, which sees the error the body returned and may replace it.\<close>

definition Apply_body ::
  "('h, 'fr, 'w) collaborators \<Rightarrow> 'h HistoryRunner \<Rightarrow> 'w \<Rightarrow>
     error option \<times> 'h HistoryRunner \<times> 'w \<times> call list" where
  "Apply_body env r w =
     (if length (filename r) \<noteq> 0 then applyFile env r (filename r) w
      else applyDir env r w)"

definition Apply_deferred ::
  "('h, 'fr, 'w) collaborators \<Rightarrow> nat \<Rightarrow>
     error option \<times> 'h HistoryRunner \<times> 'w \<times> call list \<Rightarrow>
     error option \<times> 'h HistoryRunner \<times> 'w \<times> call list" where
  "Apply_deferred env beforeLen out =
     (case out of
        (err, r, w, calls) \<Rightarrow>
          (let afterLen = HistoryLength env (hc r)
           in if beforeLen = afterLen then (err, r, w, calls)
              else case Save env (hc r) w of
                     (None, w') \<Rightarrow> (err, r, w', calls @ [CallSave])
                   | (Some serr, w') \<Rightarrow>
                       (case err of
                          None \<Rightarrow>
                            (Some (Error (''apply succeed, but failed to save history: '' @
                                          message serr)),
                             r, w', calls @ [CallSave])
                        | Some aerr \<Rightarrow>
                            (Some (Error (''failed to save history: '' @ message serr @
                                          '', failed to apply: '' @ message aerr)),
                             r, w', calls @ [CallSave]))))"

definition Apply ::
  "('h, 'fr, 'w) collaborators \<Rightarrow> 'h HistoryRunner \<Rightarrow> 'w \<Rightarrow>
     error option \<times> 'h HistoryRunner \<times> 'w \<times> call list" where
  "Apply env r w =
     (let beforeLen = HistoryLength env (hc r)
      in Apply_deferred env beforeLen (Apply_body env r w))"

section \<open>Example collaborators\<close>

text \<open>A regexp package that compiles nothing and finds nothing.\<close>

definition failing_regexp :: "unit regexp_pkg" where
  "failing_regexp =
     \<lparr>pkg_Compile = (\<lambda>p. Inl (Error ''no compiler'')),
      pkg_FindAllString = (\<lambda>r s n. None),
      pkg_ReplaceAllString = (\<lambda>r s repl. [])\<rparr>"

text \<open>
  Modelled from the spec: the state-store collaborator, whose code is not among the sources.
  A state is its listing of addresses; \<^verbatim>\<open>ListAddresses\<close> returns it, and
  \<^verbatim>\<open>ApplyMove\<close> fails if the source does not exist or the destination already exists.
\<close>

definition example_tf :: "string list TerraformCLI" where
  "example_tf =
     \<lparr>StateList = (\<lambda>state. Inr state),
      StateMvAction_StateUpdate = (\<lambda>action state.
        if mv_source action \<notin> set state then Inl (Error ''source does not exist'')
        else if mv_destination action \<in> set state then Inl (Error ''destination exists'')
        else Inr (map (\<lambda>x. if x = mv_source action then mv_destination action else x) state))\<rparr>"

text \<open>The same collaborator with a listing call that fails.\<close>

definition unlistable_tf :: "string list TerraformCLI" where
  "unlistable_tf = example_tf\<lparr>StateList := (\<lambda>state. Inl (Error ''cannot list''))\<rparr>"

definition xmv_indexed :: StateXMvAction where
  "xmv_indexed = NewStateXMvAction ''module.a[*].r'' ''module.new[$1].r''"

text \<open>
  Modelled from the spec: the history store and the file runner, whose code is not among
  the sources. The history is the ordered list of its records (file name, migration type,
  migration name); a file is already applied when a record has its name; the unapplied
  migrations are the available files without the recorded ones, in the files' order;
  adding a record appends it. A file runner is named by its path; applying it fails for
  the paths in \<open>failing\<close> and otherwise leaves its path in the world. Saving the
  history fails when \<open>save_fails\<close>.
\<close>

definition example_env ::
  "string list \<Rightarrow> string list \<Rightarrow> bool \<Rightarrow>
     ((string \<times> string \<times> string) list, string, string list) collaborators" where
  "example_env files failing save_fails =
     \<lparr>AlreadyApplied = (\<lambda>h name. name \<in> set (map fst h)),
      UnappliedMigrations = (\<lambda>h. filter (\<lambda>name. name \<notin> set (map fst h)) files),
      AddRecord = (\<lambda>name mcType mcName h. h @ [(name, mcType, mcName)]),
      HistoryLength = length,
      Save = (\<lambda>h w. (if save_fails then Some (Error ''cannot write history'') else None, w)),
      NewFileRunner = (\<lambda>path w. Inr path),
      FileRunner_Plan = (\<lambda>fr w.
        (if fr \<in> set failing then Some (Error (''plan failed: '' @ fr)) else None, w)),
      FileRunner_Apply = (\<lambda>fr w.
        if fr \<in> set failing then (Some (Error (''apply failed: '' @ fr)), w)
        else (None, w @ [fr])),
      MigrationConfig = (\<lambda>fr. (''state'', fr)),
      filepath_Join = (\<lambda>dir name. dir @ ''/'' @ name)\<rparr>"

text \<open>Three migration files, of which the second fails; a runner in directory mode
  and a runner for one file.\<close>

definition abc_env ::
  "bool \<Rightarrow> ((string \<times> string \<times> string) list, string, string list) collaborators" where
  "abc_env save_fails = example_env [''a.hcl'', ''b.hcl'', ''c.hcl''] [''migrations/b.hcl''] save_fails"

definition dir_runner :: "(string \<times> string \<times> string) list HistoryRunner" where
  "dir_runner = \<lparr>filename = [], migrationDir = ''migrations'', hc = []\<rparr>"

definition file_runner ::
  "string \<Rightarrow> (string \<times> string \<times> string) list \<Rightarrow> (string \<times> string \<times> string) list HistoryRunner" where
  "file_runner name h = \<lparr>filename = name, migrationDir = ''migrations'', hc = h\<rparr>"

text \<open>Two migration files that both apply.\<close>

definition ab_env ::
  "((string \<times> string \<times> string) list, string, string list) collaborators" where
  "ab_env = example_env [''a.hcl'', ''b.hcl''] [] False"

lemmas example_simps =
  abc_env_def example_env_def dir_runner_def file_runner_def applyFile_def applyDir_def
  Apply_body_def planFile_def Plan_def resolvePath_def Let_def

section \<open>Notions for stating the properties\<close>

text \<open>The state after a list of moves, when every one of them succeeds.\<close>

fun moved :: "'st TerraformCLI \<Rightarrow> StateMvAction list \<Rightarrow> 'st \<Rightarrow> 'st option" where
  "moved tf [] state = Some state"
| "moved tf (action # rest) state =
     (case StateMvAction_StateUpdate tf action state of
        Inl err \<Rightarrow> None
      | Inr state' \<Rightarrow> moved tf rest state')"

text \<open>The characters the class of \<^verbatim>\<open>matchWildcardRegex\<close> lists:
  the two brackets and the six white space characters. The dot is not among them.\<close>

definition wildcardClass :: "char list" where
  "wildcardClass = [CHR '']'', CHR ''['', CHR 0x09, CHR 0x0A, CHR 0x0B, CHR 0x0C, CHR 0x0D, CHR '' '']"

text \<open>The expression a source compiles to: each \<^verbatim>\<open>*\<close> is a
  group over that class, every other character a literal.\<close>

definition pattern_of :: "string \<Rightarrow> node list" where
  "pattern_of s = map (\<lambda>c. if c = CHR ''*'' then StarNot wildcardClass else Lit c) s"

text \<open>The matches \<^verbatim>\<open>FindAllString\<close> delivers for a source in a
  text, with all matches asked for: begin, end and captured segments of each.\<close>

definition occurrences :: "string \<Rightarrow> string \<Rightarrow> (nat \<times> nat \<times> string list) list" where
  "occurrences src s = allMatches (pattern_of src) s (length s + 1) 0 0 (- 1)"










text \<open>
  A file applies on a runner and a world when the history does not hold it yet, its file
  runner can be made and the apply of that runner succeeds; the runner then has the
  file's record added to its history. Stated on the collaborators alone.
\<close>

definition file_applies ::
  "('h, 'fr, 'w) collaborators \<Rightarrow> 'h HistoryRunner \<Rightarrow> string \<Rightarrow> 'w \<Rightarrow>
     ('h HistoryRunner \<times> 'w) option" where
  "file_applies env r name w =
     (if AlreadyApplied env (hc r) name then None
      else case NewFileRunner env (filepath_Join env (migrationDir r) name) w of
             Inl err \<Rightarrow> None
           | Inr fr \<Rightarrow>
               (case FileRunner_Apply env fr w of
                  (Some err, w') \<Rightarrow> None
                | (None, w') \<Rightarrow>
                    Some (r\<lparr>hc := AddRecord env name (fst (MigrationConfig env fr))
                                  (snd (MigrationConfig env fr)) (hc r)\<rparr>, w')))"

text \<open>Every file of a list applies, each on the runner and the world the one before
  it left.\<close>

fun files_apply ::
  "('h, 'fr, 'w) collaborators \<Rightarrow> 'h HistoryRunner \<Rightarrow> string list \<Rightarrow> 'w \<Rightarrow>
     ('h HistoryRunner \<times> 'w) option" where
  "files_apply env r [] w = Some (r, w)"
| "files_apply env r (name # rest) w =
     (case file_applies env r name w of
        None \<Rightarrow> None
      | Some (r', w') \<Rightarrow> files_apply env r' rest w')"

text \<open>
  A file fails when the history already holds it, when its file runner cannot be made or
  when the apply of that runner fails: the error, the world then and the calls made.
  Stated on the collaborators alone.
\<close>

definition file_fails ::
  "('h, 'fr, 'w) collaborators \<Rightarrow> 'h HistoryRunner \<Rightarrow> string \<Rightarrow> 'w \<Rightarrow>
     (error \<times> 'w \<times> call list) option" where
  "file_fails env r name w =
     (if AlreadyApplied env (hc r) name
      then Some (Error (''a migration has already been applied: '' @ name), w, [])
      else case NewFileRunner env (filepath_Join env (migrationDir r) name) w of
             Inl err \<Rightarrow> Some (err, w, [CallNewFileRunner (filepath_Join env (migrationDir r) name)])
           | Inr fr \<Rightarrow>
               (case FileRunner_Apply env fr w of
                  (Some err, w') \<Rightarrow>
                    Some (err, w', [CallNewFileRunner (filepath_Join env (migrationDir r) name),
                                    CallApply (filepath_Join env (migrationDir r) name)])
                | (None, w') \<Rightarrow> None))"

text \<open>The calls of files that apply: for each in turn its file runner, its apply and
  then its record.\<close>

definition calls_of_applied :: "('h, 'fr, 'w) collaborators \<Rightarrow> 'h HistoryRunner \<Rightarrow> string list \<Rightarrow> call list" where
  "calls_of_applied env r names =
     concat (map (\<lambda>name. [CallNewFileRunner (filepath_Join env (migrationDir r) name),
                           CallApply (filepath_Join env (migrationDir r) name),
                           CallAddRecord name]) names)"

text \<open>
  What \<^verbatim>\<open>Apply\<close> makes of the outcome of its body when saving the history, if it
  comes to that, succeeds and leaves the world \<open>w2\<close>: the same outcome if the length of
  the history has not changed, otherwise the same result and runner after the call of
  \<^verbatim>\<open>Save\<close>.
\<close>

definition saved ::
  "('h, 'fr, 'w) collaborators \<Rightarrow> 'h HistoryRunner \<Rightarrow>
     error option \<times> 'h HistoryRunner \<times> 'w \<times> call list \<Rightarrow> 'w \<Rightarrow>
     error option \<times> 'h HistoryRunner \<times> 'w \<times> call list" where
  "saved env r out w2 =
     (case out of
        (res, r1, w1, calls) \<Rightarrow>
          if HistoryLength env (hc r1) = HistoryLength env (hc r) then (res, r1, w1, calls)
          else (res, r1, w2, calls @ [CallSave]))"

section \<open>Properties of the wildcard expansion\<close>

lemma Count_wildcard: "Count s ''*'' = 0 \<longleftrightarrow> CHR ''*'' \<notin> set s"
  by (induction s) (auto simp: HasPrefix_def)

lemma nrOfWildcards_zero: "nrOfWildcards a = 0 \<longleftrightarrow> CHR ''*'' \<notin> set (source a)"
  by (simp add: nrOfWildcards_def wildcardChar_def Count_wildcard)

text \<open>
  C3. A source with no wildcard character expands to the single move from the source to
  the destination, both unchanged, whatever the listing holds and whatever the regexp
  package would do: nothing is compiled and the listing is not scanned, so the result
  is the same even with a package that cannot compile any pattern.
\<close>

theorem no_wildcard_single_move:
  "CHR ''*'' \<notin> set (source a) \<Longrightarrow>
   getStateMvActionsForStateList rx a stateList =
     Inr [NewStateMvAction (source a) (destination a)]"
  by (simp add: getStateMvActionsForStateList_def nrOfWildcards_zero)

theorem no_wildcard_single_move_witness:
  "CHR ''*'' \<notin> set (source (NewStateXMvAction ''aws_instance.a'' ''aws_instance.b'')) \<and>
   getStateMvActionsForStateList failing_regexp
     (NewStateXMvAction ''aws_instance.a'' ''aws_instance.b'') [''aws_instance.a'', ''x'']
   = Inr [NewStateMvAction ''aws_instance.a'' ''aws_instance.b'']"
proof -
  have h: "CHR ''*'' \<notin> set (source (NewStateXMvAction ''aws_instance.a'' ''aws_instance.b''))"
    by (simp add: NewStateXMvAction_def)
  from no_wildcard_single_move [OF h, of failing_regexp "[''aws_instance.a'', ''x'']"] h
  show ?thesis by (simp add: NewStateXMvAction_def)
qed

text \<open>
  C10. The compiled pattern is not anchored: the pattern \<^verbatim>\<open>module.*.r\<close> matches inside
  the listing entry \<^verbatim>\<open>xmodule.a.r\<close>, and the source of the move it generates,
  \<^verbatim>\<open>module.a.r\<close>, is not an entry of the listing.
\<close>

theorem unanchored_match:
  "getStateMvActionsForStateList go_regexp
     (NewStateXMvAction ''module.*.r'' ''moved.$1.r'') [''xmodule.a.r'']
   = Inr [NewStateMvAction ''module.a.r'' ''moved.a.r''] \<and>
   ''module.a.r'' \<notin> set [''xmodule.a.r'']"
  by code_simp


lemma QuoteMeta_Nil [simp]: "QuoteMeta [] = []"
  by (simp add: QuoteMeta_def)










lemma ascii_append [simp]: "ascii (xs @ ys) \<longleftrightarrow> ascii xs \<and> ascii ys"
  by (simp add: ascii_def)



text \<open>A source that is not valid UTF-8 does not compile: the expansion fails.\<close>

lemma invalid_utf8_source_fails:
  "getStateMvActionsForStateList go_regexp
     (NewStateXMvAction [CHR 0xFF, CHR ''*''] ''x'') [''a''] =
   Inl (Error (''could not make pattern out of '' @ [CHR 0xFF] @ ''* ('' @
               [CHR 0xFF] @ matchWildcardRegex @ '') due to '' @
               ''error parsing regexp: invalid UTF-8: '' @ [CHR 0x60] @
               [CHR 0xFF] @ matchWildcardRegex @ [CHR 0x60]))"
  by code_simp







































text \<open>
  C1. The class of the wildcard group excludes the brackets and white space but not the
  dot, so a wildcard can swallow a dot and with it a whole path segment: the pattern
  \<^verbatim>\<open>module.*.aws_instance.foo\<close> matches \<^verbatim>\<open>module.app.sub.aws_instance.foo\<close>, the
  wildcard capturing \<^verbatim>\<open>app.sub\<close>, and the move is generated. The example given
  with C1 gives no move, because there the wildcard stands between brackets.
\<close>

theorem wildcard_captures_dot:
  "Compile (makeSourceMatchPattern ''*'') =
     Inr [StarNot [CHR '']'', CHR ''['', CHR 0x09, CHR 0x0A, CHR 0x0B, CHR 0x0C, CHR 0x0D,
                   CHR '' '']] \<and>
   occurrences ''module.*.aws_instance.foo''
     (Join [''module.app.sub.aws_instance.foo''] [CHR 0x0A]) = [(0, 31, [''app.sub''])] \<and>
   CHR ''.'' \<in> set ''app.sub'' \<and>
   getStateMvActionsForStateList go_regexp
     (NewStateXMvAction ''module.*.aws_instance.foo'' ''module.$1.aws_instance.bar'')
     [''module.app.sub.aws_instance.foo''] =
     Inr [NewStateMvAction ''module.app.sub.aws_instance.foo''
            ''module.app.sub.aws_instance.bar''] \<and>
   getStateMvActionsForStateList go_regexp
     (NewStateXMvAction ''module.app[*].aws_instance.foo'' ''module.app[$1].aws_instance.bar'')
     [''module.app[0].sub.aws_instance.foo''] = Inr []"
  by code_simp

section \<open>Properties of the state update\<close>

lemma applyMvActions_moved:
  "moved tf actions state = Some state' \<Longrightarrow>
   applyMvActions tf actions state = (Inr state', map CallStateMv actions)"
  by (induction actions arbitrary: state) (auto split: sum.splits)

lemma applyMvActions_first_failure:
  "moved tf pre state = Some st \<Longrightarrow> StateMvAction_StateUpdate tf act st = Inl err \<Longrightarrow>
   applyMvActions tf (pre @ act # post) state = (Inl err, map CallStateMv (pre @ [act]))"
  by (induction pre arbitrary: state) (auto split: sum.splits)

lemma applyMvActions_no_list:
  "applyMvActions tf actions state = (res, calls) \<Longrightarrow> CallStateList \<notin> set calls"
  by (induction actions arbitrary: state res calls) (auto split: sum.splits prod.splits)

lemma generateMvActions_calls: "snd (generateMvActions rx tf a state) = [CallStateList]"
  by (simp add: generateMvActions_def split: sum.splits)

lemma generateMvActions_listed:
  "StateList tf state = Inr stateList \<Longrightarrow>
   generateMvActions rx tf a state =
     (getStateMvActionsForStateList rx a stateList, [CallStateList])"
  by (simp add: generateMvActions_def)

text \<open>
  C4. \<^verbatim>\<open>StateUpdate\<close> calls the listing exactly once, first, and never between the
  moves. The moves it applies are those the expansion gives for the listing that this
  one call returned; if the expansion fails, its error is returned and no move is made.
  When every move succeeds, \<^verbatim>\<open>StateUpdate\<close> returns the state threaded through all of
  them, having called them in order. When the moves before some move succeed and that
  move fails on the state they produced, it returns that move's error and no state; the
  calls made are the listing and the moves up to the failing one: nothing undoes the
  earlier moves and no later move is tried.
\<close>

theorem StateUpdate_lists_once_then_moves:
  "(\<exists>moves. snd (StateUpdate rx tf a state) = CallStateList # moves \<and>
            CallStateList \<notin> set moves) \<and>
   (StateList tf state = Inr stateList \<longrightarrow>
    getStateMvActionsForStateList rx a stateList = Inl e \<longrightarrow>
      StateUpdate rx tf a state = (Inl e, [CallStateList])) \<and>
   (StateList tf state = Inr stateList \<longrightarrow>
    getStateMvActionsForStateList rx a stateList = Inr actions \<longrightarrow>
    moved tf actions state = Some state' \<longrightarrow>
      StateUpdate rx tf a state = (Inr state', CallStateList # map CallStateMv actions)) \<and>
   (StateList tf state = Inr stateList \<longrightarrow>
    getStateMvActionsForStateList rx a stateList = Inr (pre @ act # post) \<longrightarrow>
    moved tf pre state = Some st \<longrightarrow>
    StateMvAction_StateUpdate tf act st = Inl err \<longrightarrow>
      StateUpdate rx tf a state = (Inl err, CallStateList # map CallStateMv (pre @ [act])))"
proof (intro conjI impI)
  obtain res calls where g: "generateMvActions rx tf a state = (res, calls)"
    by (cases "generateMvActions rx tf a state")
  with generateMvActions_calls [of rx tf a state] have c: "calls = [CallStateList]" by simp
  show "\<exists>moves. snd (StateUpdate rx tf a state) = CallStateList # moves \<and>
            CallStateList \<notin> set moves"
  proof (cases res)
    case (Inl e)
    with g c show ?thesis by (simp add: StateUpdate_def)
  next
    case (Inr actions)
    with g c show ?thesis
      by (auto simp: StateUpdate_def split: prod.splits dest: applyMvActions_no_list)
  qed
next
  assume "StateList tf state = Inr stateList"
    and "getStateMvActionsForStateList rx a stateList = Inl e"
  then show "StateUpdate rx tf a state = (Inl e, [CallStateList])"
    by (simp add: StateUpdate_def generateMvActions_listed)
next
  assume "StateList tf state = Inr stateList"
    and "getStateMvActionsForStateList rx a stateList = Inr actions"
    and "moved tf actions state = Some state'"
  then show "StateUpdate rx tf a state = (Inr state', CallStateList # map CallStateMv actions)"
    by (simp add: StateUpdate_def generateMvActions_listed applyMvActions_moved)
next
  assume "StateList tf state = Inr stateList"
    and "getStateMvActionsForStateList rx a stateList = Inr (pre @ act # post)"
    and "moved tf pre state = Some st"
    and "StateMvAction_StateUpdate tf act st = Inl err"
  then show "StateUpdate rx tf a state =
               (Inl err, CallStateList # map CallStateMv (pre @ [act]))"
    by (simp add: StateUpdate_def generateMvActions_listed applyMvActions_first_failure)
qed

theorem StateUpdate_lists_once_then_moves_witness:
  "StateList example_tf [''module.a[0].r'', ''module.a[1].r'', ''module.b.r''] =
     Inr [''module.a[0].r'', ''module.a[1].r'', ''module.b.r''] \<and>
   getStateMvActionsForStateList go_regexp xmv_indexed
     [''module.a[0].r'', ''module.a[1].r'', ''module.b.r''] =
     Inr [NewStateMvAction ''module.a[0].r'' ''module.new[0].r'',
          NewStateMvAction ''module.a[1].r'' ''module.new[1].r''] \<and>
   moved example_tf
     [NewStateMvAction ''module.a[0].r'' ''module.new[0].r'',
      NewStateMvAction ''module.a[1].r'' ''module.new[1].r'']
     [''module.a[0].r'', ''module.a[1].r'', ''module.b.r''] =
     Some [''module.new[0].r'', ''module.new[1].r'', ''module.b.r''] \<and>
   StateUpdate go_regexp example_tf xmv_indexed
     [''module.a[0].r'', ''module.a[1].r'', ''module.b.r''] =
     (Inr [''module.new[0].r'', ''module.new[1].r'', ''module.b.r''],
      [CallStateList,
       CallStateMv (NewStateMvAction ''module.a[0].r'' ''module.new[0].r''),
       CallStateMv (NewStateMvAction ''module.a[1].r'' ''module.new[1].r'')]) \<and>
   StateList example_tf [''module.a[0].r'', ''module.a[1].r'', ''module.new[1].r''] =
     Inr [''module.a[0].r'', ''module.a[1].r'', ''module.new[1].r''] \<and>
   getStateMvActionsForStateList go_regexp xmv_indexed
     [''module.a[0].r'', ''module.a[1].r'', ''module.new[1].r''] =
     Inr ([NewStateMvAction ''module.a[0].r'' ''module.new[0].r''] @
          NewStateMvAction ''module.a[1].r'' ''module.new[1].r'' # []) \<and>
   moved example_tf [NewStateMvAction ''module.a[0].r'' ''module.new[0].r'']
     [''module.a[0].r'', ''module.a[1].r'', ''module.new[1].r''] =
     Some [''module.new[0].r'', ''module.a[1].r'', ''module.new[1].r''] \<and>
   StateMvAction_StateUpdate example_tf
     (NewStateMvAction ''module.a[1].r'' ''module.new[1].r'')
     [''module.new[0].r'', ''module.a[1].r'', ''module.new[1].r''] =
     Inl (Error ''destination exists'') \<and>
   StateUpdate go_regexp example_tf xmv_indexed
     [''module.a[0].r'', ''module.a[1].r'', ''module.new[1].r''] =
     (Inl (Error ''destination exists''),
      [CallStateList,
       CallStateMv (NewStateMvAction ''module.a[0].r'' ''module.new[0].r''),
       CallStateMv (NewStateMvAction ''module.a[1].r'' ''module.new[1].r'')]) \<and>
   getStateMvActionsForStateList go_regexp (NewStateXMvAction ''module.b.r'' ''module.c.r'')
     [''module.a[0].r'', ''module.a[1].r'', ''module.b.r''] =
     Inr [NewStateMvAction ''module.b.r'' ''module.c.r''] \<and>
   moved example_tf [NewStateMvAction ''module.b.r'' ''module.c.r'']
     [''module.a[0].r'', ''module.a[1].r'', ''module.b.r''] =
     Some [''module.a[0].r'', ''module.a[1].r'', ''module.c.r''] \<and>
   StateUpdate go_regexp example_tf (NewStateXMvAction ''module.b.r'' ''module.c.r'')
     [''module.a[0].r'', ''module.a[1].r'', ''module.b.r''] =
     (Inr [''module.a[0].r'', ''module.a[1].r'', ''module.c.r''],
      [CallStateList, CallStateMv (NewStateMvAction ''module.b.r'' ''module.c.r'')]) \<and>
   getStateMvActionsForStateList failing_regexp xmv_indexed
     [''module.a[0].r'', ''module.a[1].r'', ''module.b.r''] =
     Inl (Error (''could not make pattern out of module.a[*].r ('' @
                 makeSourceMatchPattern ''module.a[*].r'' @ '') due to no compiler'')) \<and>
   StateUpdate failing_regexp example_tf xmv_indexed
     [''module.a[0].r'', ''module.a[1].r'', ''module.b.r''] =
     (Inl (Error (''could not make pattern out of module.a[*].r ('' @
                  makeSourceMatchPattern ''module.a[*].r'' @ '') due to no compiler'')),
      [CallStateList])"
proof -
  let ?m0 = "NewStateMvAction ''module.a[0].r'' ''module.new[0].r''"
  let ?m1 = "NewStateMvAction ''module.a[1].r'' ''module.new[1].r''"
  let ?mb = "NewStateMvAction ''module.b.r'' ''module.c.r''"
  let ?xb = "NewStateXMvAction ''module.b.r'' ''module.c.r''"
  let ?s1 = "[''module.a[0].r'', ''module.a[1].r'', ''module.b.r'']"
  let ?s2 = "[''module.a[0].r'', ''module.a[1].r'', ''module.new[1].r'']"
  let ?e = "Error (''could not make pattern out of module.a[*].r ('' @
                   makeSourceMatchPattern ''module.a[*].r'' @ '') due to no compiler'')"
  have l1: "StateList example_tf ?s1 = Inr ?s1" by (simp add: example_tf_def)
  have l2: "StateList example_tf ?s2 = Inr ?s2" by (simp add: example_tf_def)
  have g1: "getStateMvActionsForStateList go_regexp xmv_indexed ?s1 = Inr [?m0, ?m1]"
    by code_simp
  have m1: "moved example_tf [?m0, ?m1] ?s1 =
              Some [''module.new[0].r'', ''module.new[1].r'', ''module.b.r'']"
    by code_simp
  have g2: "getStateMvActionsForStateList go_regexp xmv_indexed ?s2 = Inr ([?m0] @ ?m1 # [])"
    by code_simp
  have m2: "moved example_tf [?m0] ?s2 =
              Some [''module.new[0].r'', ''module.a[1].r'', ''module.new[1].r'']"
    by code_simp
  have f2: "StateMvAction_StateUpdate example_tf ?m1
              [''module.new[0].r'', ''module.a[1].r'', ''module.new[1].r''] =
            Inl (Error ''destination exists'')"
    by code_simp
  have g3: "getStateMvActionsForStateList go_regexp ?xb ?s1 = Inr [?mb]"
    by code_simp
  have m3: "moved example_tf [?mb] ?s1 = Some [''module.a[0].r'', ''module.a[1].r'', ''module.c.r'']"
    by code_simp
  have g4: "getStateMvActionsForStateList failing_regexp xmv_indexed ?s1 = Inl ?e"
    by code_simp
  note thm1 = StateUpdate_lists_once_then_moves
    [where rx = go_regexp and tf = example_tf and a = xmv_indexed and state = ?s1
       and stateList = ?s1 and actions = "[?m0, ?m1]"
       and state' = "[''module.new[0].r'', ''module.new[1].r'', ''module.b.r'']"]
  note thm2 = StateUpdate_lists_once_then_moves
    [where rx = go_regexp and tf = example_tf and a = xmv_indexed and state = ?s2
       and stateList = ?s2 and pre = "[?m0]" and act = ?m1 and post = "[]"
       and st = "[''module.new[0].r'', ''module.a[1].r'', ''module.new[1].r'']"
       and err = "Error ''destination exists''"]
  note thm3 = StateUpdate_lists_once_then_moves
    [where rx = go_regexp and tf = example_tf and a = ?xb and state = ?s1
       and stateList = ?s1 and actions = "[?mb]"
       and state' = "[''module.a[0].r'', ''module.a[1].r'', ''module.c.r'']"]
  note thm4 = StateUpdate_lists_once_then_moves
    [where rx = failing_regexp and tf = example_tf and a = xmv_indexed and state = ?s1
       and stateList = ?s1 and e = ?e]
  from thm1 l1 g1 m1 have r1: "StateUpdate go_regexp example_tf xmv_indexed ?s1 =
     (Inr [''module.new[0].r'', ''module.new[1].r'', ''module.b.r''],
      [CallStateList, CallStateMv ?m0, CallStateMv ?m1])" by simp
  from thm2 l2 g2 m2 f2 have r2: "StateUpdate go_regexp example_tf xmv_indexed ?s2 =
     (Inl (Error ''destination exists''),
      [CallStateList, CallStateMv ?m0, CallStateMv ?m1])" by simp
  from thm3 l1 g3 m3 have r3: "StateUpdate go_regexp example_tf ?xb ?s1 =
     (Inr [''module.a[0].r'', ''module.a[1].r'', ''module.c.r''],
      [CallStateList, CallStateMv ?mb])" by simp
  from thm4 l1 g4 have r4: "StateUpdate failing_regexp example_tf xmv_indexed ?s1 =
     (Inl ?e, [CallStateList])" by blast
  from l1 g1 m1 r1 l2 g2 m2 f2 r2 g3 m3 r3 g4 r4 show ?thesis by blast
qed

text \<open>
  C9. Every \<^verbatim>\<open>StateUpdate\<close> begins by calling the listing, whatever the source is;
  if that call fails, \<^verbatim>\<open>StateUpdate\<close> returns its error and makes no other call, also
  for a source with no wildcard, whose expansion would not have read the listing.
\<close>

theorem StateUpdate_list_failure:
  "(\<exists>calls. snd (StateUpdate rx tf a state) = CallStateList # calls) \<and>
   (StateList tf state = Inl err \<longrightarrow>
      StateUpdate rx tf a state = (Inl err, [CallStateList]))"
  by (auto simp: StateUpdate_def generateMvActions_def split: sum.splits prod.splits)

theorem StateUpdate_list_failure_witness:
  "CHR ''*'' \<notin> set (source (NewStateXMvAction ''aws_instance.a'' ''aws_instance.b'')) \<and>
   StateList unlistable_tf [''aws_instance.a''] = Inl (Error ''cannot list'') \<and>
   StateUpdate go_regexp unlistable_tf
     (NewStateXMvAction ''aws_instance.a'' ''aws_instance.b'') [''aws_instance.a''] =
     (Inl (Error ''cannot list''), [CallStateList])"
proof -
  have h: "StateList unlistable_tf [''aws_instance.a''] = Inl (Error ''cannot list'')"
    by (simp add: unlistable_tf_def)
  have n: "CHR ''*'' \<notin> set (source (NewStateXMvAction ''aws_instance.a'' ''aws_instance.b''))"
    by (simp add: NewStateXMvAction_def)
  from StateUpdate_list_failure
    [of go_regexp unlistable_tf "NewStateXMvAction ''aws_instance.a'' ''aws_instance.b''"
        "[''aws_instance.a'']" "Error ''cannot list''"] h n
  show ?thesis by blast
qed

section \<open>Properties of the history-aware runner\<close>

lemma planFile_no_save: "planFile env r name w = (res, w', calls) \<Longrightarrow> CallSave \<notin> set calls"
  by (auto simp: planFile_def Let_def split: if_splits sum.splits prod.splits)

lemma planFiles_no_save: "planFiles env r names w = (res, w', calls) \<Longrightarrow> CallSave \<notin> set calls"
  by (induction names arbitrary: w res w' calls)
     (auto split: prod.splits option.splits dest: planFile_no_save)

lemma applyFile_no_save:
  "applyFile env r name w = (res, r', w', calls) \<Longrightarrow> CallSave \<notin> set calls"
  by (auto simp: applyFile_def Let_def split: if_splits sum.splits prod.splits option.splits)

lemma applyFiles_no_save:
  "applyFiles env r names w = (res, r', w', calls) \<Longrightarrow> CallSave \<notin> set calls"
  by (induction names arbitrary: r w res r' w' calls)
     (auto split: prod.splits option.splits dest: applyFile_no_save)

lemma Apply_body_no_save:
  "Apply_body env r w = (res, r', w', calls) \<Longrightarrow> CallSave \<notin> set calls"
  by (auto simp: Apply_body_def applyDir_def Let_def split: if_splits
           dest: applyFile_no_save applyFiles_no_save)

lemma resolvePath_hc [simp]: "resolvePath env (r\<lparr>hc := h\<rparr>) name = resolvePath env r name"
  by (simp add: resolvePath_def)

lemma applyFiles_first_failure:
  "applyFiles env r pre w = (None, r1, w1, calls1) \<Longrightarrow>
   applyFile env r1 name w1 = (Some err, r2, w2, calls2) \<Longrightarrow>
   applyFiles env r (pre @ name # post) w = (Some err, r2, w2, calls1 @ calls2)"
proof (induction pre arbitrary: r w calls1)
  case Nil
  then show ?case by simp
next
  case (Cons p pre)
  from Cons.prems(1) obtain r' w' cs cs' where
    f: "applyFile env r p w = (None, r', w', cs)" and
    rest: "applyFiles env r' pre w' = (None, r1, w1, cs')" and
    calls: "calls1 = cs @ cs'"
    by (auto split: prod.splits option.splits)
  from Cons.IH [OF rest Cons.prems(2)] f calls show ?case by simp
qed

text \<open>
  C5. When the history changed during the run and saving it fails, \<^verbatim>\<open>Apply\<close> does not
  lose the outcome of the run: after a successful run it returns the error
  \<^verbatim>\<open>apply succeed, but failed to save history: ...\<close> with the message of the save
  error; after a failed run it returns one error whose text holds the message of the save
  error and the message of the error of the run.
\<close>

theorem Apply_save_failure_keeps_outcome:
  "Apply_body env r w = (err, r1, w1, calls) \<Longrightarrow>
   HistoryLength env (hc r1) \<noteq> HistoryLength env (hc r) \<Longrightarrow>
   Save env (hc r1) w1 = (Some serr, w2) \<Longrightarrow>
   Apply env r w =
     (Some (Error (case err of
                     None \<Rightarrow> ''apply succeed, but failed to save history: '' @ message serr
                   | Some aerr \<Rightarrow> ''failed to save history: '' @ message serr @
                                 '', failed to apply: '' @ message aerr)),
      r1, w2, calls @ [CallSave])"
  by (auto simp: Apply_def Apply_deferred_def Let_def split: option.splits)

theorem Apply_save_failure_keeps_outcome_witness:
  "Apply_body (abc_env True) (file_runner ''a.hcl'' []) [] =
     (None, file_runner ''a.hcl'' [(''a.hcl'', ''state'', ''migrations/a.hcl'')],
      [''migrations/a.hcl''],
      [CallNewFileRunner ''migrations/a.hcl'', CallApply ''migrations/a.hcl'',
       CallAddRecord ''a.hcl'']) \<and>
   HistoryLength (abc_env True)
     (hc (file_runner ''a.hcl'' [(''a.hcl'', ''state'', ''migrations/a.hcl'')])) \<noteq>
   HistoryLength (abc_env True) (hc (file_runner ''a.hcl'' [])) \<and>
   Save (abc_env True) (hc (file_runner ''a.hcl'' [(''a.hcl'', ''state'', ''migrations/a.hcl'')]))
     [''migrations/a.hcl''] = (Some (Error ''cannot write history''), [''migrations/a.hcl'']) \<and>
   Apply (abc_env True) (file_runner ''a.hcl'' []) [] =
     (Some (Error ''apply succeed, but failed to save history: cannot write history''),
      file_runner ''a.hcl'' [(''a.hcl'', ''state'', ''migrations/a.hcl'')],
      [''migrations/a.hcl''],
      [CallNewFileRunner ''migrations/a.hcl'', CallApply ''migrations/a.hcl'',
       CallAddRecord ''a.hcl'', CallSave]) \<and>
   Apply_body (abc_env True) dir_runner [] =
     (Some (Error ''apply failed: migrations/b.hcl''),
      dir_runner\<lparr>hc := [(''a.hcl'', ''state'', ''migrations/a.hcl'')]\<rparr>,
      [''migrations/a.hcl''],
      [CallNewFileRunner ''migrations/a.hcl'', CallApply ''migrations/a.hcl'',
       CallAddRecord ''a.hcl'', CallNewFileRunner ''migrations/b.hcl'',
       CallApply ''migrations/b.hcl'']) \<and>
   Apply (abc_env True) dir_runner [] =
     (Some (Error (''failed to save history: cannot write history, '' @
                   ''failed to apply: apply failed: migrations/b.hcl'')),
      dir_runner\<lparr>hc := [(''a.hcl'', ''state'', ''migrations/a.hcl'')]\<rparr>,
      [''migrations/a.hcl''],
      [CallNewFileRunner ''migrations/a.hcl'', CallApply ''migrations/a.hcl'',
       CallAddRecord ''a.hcl'', CallNewFileRunner ''migrations/b.hcl'',
       CallApply ''migrations/b.hcl'', CallSave])"
proof -
  let ?h1 = "[(''a.hcl'', ''state'', ''migrations/a.hcl'')]"
  let ?ca = "[CallNewFileRunner ''migrations/a.hcl'', CallApply ''migrations/a.hcl'',
              CallAddRecord ''a.hcl'']"
  let ?cb = "[CallNewFileRunner ''migrations/a.hcl'', CallApply ''migrations/a.hcl'',
              CallAddRecord ''a.hcl'', CallNewFileRunner ''migrations/b.hcl'',
              CallApply ''migrations/b.hcl'']"
  have b1: "Apply_body (abc_env True) (file_runner ''a.hcl'' []) [] =
              (None, file_runner ''a.hcl'' ?h1, [''migrations/a.hcl''], ?ca)"
    by (simp add: example_simps)
  have l1: "HistoryLength (abc_env True) (hc (file_runner ''a.hcl'' ?h1)) \<noteq>
            HistoryLength (abc_env True) (hc (file_runner ''a.hcl'' []))"
    by (simp add: example_simps)
  have s1: "Save (abc_env True) (hc (file_runner ''a.hcl'' ?h1)) [''migrations/a.hcl''] =
              (Some (Error ''cannot write history''), [''migrations/a.hcl''])"
    by (simp add: example_simps)
  have b2: "Apply_body (abc_env True) dir_runner [] =
              (Some (Error ''apply failed: migrations/b.hcl''), dir_runner\<lparr>hc := ?h1\<rparr>,
               [''migrations/a.hcl''], ?cb)"
    by (simp add: example_simps)
  have l2: "HistoryLength (abc_env True) (hc (dir_runner\<lparr>hc := ?h1\<rparr>)) \<noteq>
            HistoryLength (abc_env True) (hc dir_runner)"
    by (simp add: example_simps)
  have s2: "Save (abc_env True) (hc (dir_runner\<lparr>hc := ?h1\<rparr>)) [''migrations/a.hcl''] =
              (Some (Error ''cannot write history''), [''migrations/a.hcl''])"
    by (simp add: example_simps)
  from Apply_save_failure_keeps_outcome [OF b1 l1 s1]
  have a1: "Apply (abc_env True) (file_runner ''a.hcl'' []) [] =
     (Some (Error ''apply succeed, but failed to save history: cannot write history''),
      file_runner ''a.hcl'' ?h1, [''migrations/a.hcl''], ?ca @ [CallSave])" by simp
  from Apply_save_failure_keeps_outcome [OF b2 l2 s2]
  have a2: "Apply (abc_env True) dir_runner [] =
     (Some (Error (''failed to save history: cannot write history, '' @
                   ''failed to apply: apply failed: migrations/b.hcl'')),
      dir_runner\<lparr>hc := ?h1\<rparr>, [''migrations/a.hcl''], ?cb @ [CallSave])" by simp
  from b1 l1 s1 a1 b2 a2 show ?thesis by simp
qed

text \<open>
  C6. The history is saved only when its length changed. If the body of \<^verbatim>\<open>Apply\<close>
  leaves the length as it was, \<^verbatim>\<open>Apply\<close> returns what the body returned and
  \<^verbatim>\<open>Save\<close> is not among the calls; no \<^verbatim>\<open>Plan\<close> run calls \<^verbatim>\<open>Save\<close> (a plan does
  not touch the history at all: it returns no new runner); and \<^verbatim>\<open>Apply\<close> in directory
  mode with nothing unapplied succeeds without any call.
\<close>

theorem save_only_when_history_changed:
  "(Apply_body env r w = (err, r1, w1, calls) \<longrightarrow>
    HistoryLength env (hc r1) = HistoryLength env (hc r) \<longrightarrow>
      Apply env r w = (err, r1, w1, calls) \<and> CallSave \<notin> set calls) \<and>
   (Plan env r w = (perr, pw, pcalls) \<longrightarrow> CallSave \<notin> set pcalls) \<and>
   (filename r = [] \<longrightarrow> UnappliedMigrations env (hc r) = [] \<longrightarrow>
      Apply env r w = (None, r, w, []))"
proof (intro conjI impI)
  assume "Apply_body env r w = (err, r1, w1, calls)"
    and "HistoryLength env (hc r1) = HistoryLength env (hc r)"
  then show "Apply env r w = (err, r1, w1, calls)"
    by (simp add: Apply_def Apply_deferred_def Let_def)
next
  assume "Apply_body env r w = (err, r1, w1, calls)"
  then show "CallSave \<notin> set calls" by (rule Apply_body_no_save)
next
  assume "Plan env r w = (perr, pw, pcalls)"
  then show "CallSave \<notin> set pcalls"
    by (auto simp: Plan_def planDir_def Let_def split: if_splits
             dest: planFile_no_save planFiles_no_save)
next
  assume "filename r = []" and "UnappliedMigrations env (hc r) = []"
  then show "Apply env r w = (None, r, w, [])"
    by (simp add: Apply_def Apply_deferred_def Apply_body_def applyDir_def Let_def)
qed

theorem save_only_when_history_changed_witness:
  "Apply_body (abc_env True) (file_runner ''b.hcl'' []) [] =
     (Some (Error ''apply failed: migrations/b.hcl''), file_runner ''b.hcl'' [], [],
      [CallNewFileRunner ''migrations/b.hcl'', CallApply ''migrations/b.hcl'']) \<and>
   HistoryLength (abc_env True) (hc (file_runner ''b.hcl'' [])) =
   HistoryLength (abc_env True) (hc (file_runner ''b.hcl'' [])) \<and>
   Apply (abc_env True) (file_runner ''b.hcl'' []) [] =
     (Some (Error ''apply failed: migrations/b.hcl''), file_runner ''b.hcl'' [], [],
      [CallNewFileRunner ''migrations/b.hcl'', CallApply ''migrations/b.hcl'']) \<and>
   Plan (abc_env True) dir_runner [] =
     (Some (Error ''plan failed: migrations/b.hcl''), [],
      [CallNewFileRunner ''migrations/a.hcl'', CallPlan ''migrations/a.hcl'',
       CallNewFileRunner ''migrations/b.hcl'', CallPlan ''migrations/b.hcl'']) \<and>
   CallSave \<notin> set [CallNewFileRunner ''migrations/a.hcl'', CallPlan ''migrations/a.hcl'',
       CallNewFileRunner ''migrations/b.hcl'', CallPlan ''migrations/b.hcl''] \<and>
   filename (dir_runner\<lparr>hc := [(''a.hcl'', ''state'', ''a''), (''b.hcl'', ''state'', ''b''),
                                  (''c.hcl'', ''state'', ''c'')]\<rparr>) = [] \<and>
   UnappliedMigrations (abc_env True)
     (hc (dir_runner\<lparr>hc := [(''a.hcl'', ''state'', ''a''), (''b.hcl'', ''state'', ''b''),
                              (''c.hcl'', ''state'', ''c'')]\<rparr>)) = [] \<and>
   Apply (abc_env True)
     (dir_runner\<lparr>hc := [(''a.hcl'', ''state'', ''a''), (''b.hcl'', ''state'', ''b''),
                         (''c.hcl'', ''state'', ''c'')]\<rparr>) [] =
     (None, dir_runner\<lparr>hc := [(''a.hcl'', ''state'', ''a''), (''b.hcl'', ''state'', ''b''),
                               (''c.hcl'', ''state'', ''c'')]\<rparr>, [], [])"
proof -
  let ?h3 = "[(''a.hcl'', ''state'', ''a''), (''b.hcl'', ''state'', ''b''),
              (''c.hcl'', ''state'', ''c'')]"
  let ?cb = "[CallNewFileRunner ''migrations/b.hcl'', CallApply ''migrations/b.hcl'']"
  let ?cp = "[CallNewFileRunner ''migrations/a.hcl'', CallPlan ''migrations/a.hcl'',
              CallNewFileRunner ''migrations/b.hcl'', CallPlan ''migrations/b.hcl'']"
  have b: "Apply_body (abc_env True) (file_runner ''b.hcl'' []) [] =
             (Some (Error ''apply failed: migrations/b.hcl''), file_runner ''b.hcl'' [], [], ?cb)"
    by (simp add: example_simps)
  have p: "Plan (abc_env True) dir_runner [] =
             (Some (Error ''plan failed: migrations/b.hcl''), [], ?cp)"
    by (simp add: example_simps planDir_def)
  have f: "filename (dir_runner\<lparr>hc := ?h3\<rparr>) = []" by (simp add: example_simps)
  have u: "UnappliedMigrations (abc_env True) (hc (dir_runner\<lparr>hc := ?h3\<rparr>)) = []"
    by (simp add: example_simps)
  note t1 = save_only_when_history_changed
    [where env = "abc_env True" and r = "file_runner ''b.hcl'' []" and w = "[]"
       and err = "Some (Error ''apply failed: migrations/b.hcl'')"
       and ?r1.0 = "file_runner ''b.hcl'' []" and ?w1.0 = "[]" and calls = ?cb]
  note t2 = save_only_when_history_changed
    [where env = "abc_env True" and r = dir_runner and w = "[]"
       and perr = "Some (Error ''plan failed: migrations/b.hcl'')" and pw = "[]"
       and pcalls = ?cp]
  note t3 = save_only_when_history_changed
    [where env = "abc_env True" and r = "dir_runner\<lparr>hc := ?h3\<rparr>" and w = "[]"]
  from t1 b have a: "Apply (abc_env True) (file_runner ''b.hcl'' []) [] =
     (Some (Error ''apply failed: migrations/b.hcl''), file_runner ''b.hcl'' [], [], ?cb)"
    by blast
  from t2 p have n: "CallSave \<notin> set ?cp" by blast
  from t3 f u have d: "Apply (abc_env True) (dir_runner\<lparr>hc := ?h3\<rparr>) [] =
     (None, dir_runner\<lparr>hc := ?h3\<rparr>, [], [])" by blast
  from b a p n f u d show ?thesis by blast
qed

text \<open>
  C7. For a runner with a file name that the history already holds, \<^verbatim>\<open>Apply\<close> and
  \<^verbatim>\<open>Plan\<close> fail with the error \<^verbatim>\<open>a migration has already been applied: \<close> and the
  name, having made no call (no file runner is created, nothing is applied, nothing is
  saved); the runner, and with it the history and its length, is unchanged.
\<close>

theorem already_applied_is_refused:
  "filename r \<noteq> [] \<Longrightarrow> AlreadyApplied env (hc r) (filename r) \<Longrightarrow>
   Apply env r w =
     (Some (Error (''a migration has already been applied: '' @ filename r)), r, w, []) \<and>
   Plan env r w =
     (Some (Error (''a migration has already been applied: '' @ filename r)), w, [])"
  by (simp add: Apply_def Apply_deferred_def Apply_body_def applyFile_def Plan_def
        planFile_def Let_def)

theorem already_applied_is_refused_witness:
  "Apply (abc_env False) (file_runner ''a.hcl'' []) [] =
     (None, file_runner ''a.hcl'' [(''a.hcl'', ''state'', ''migrations/a.hcl'')],
      [''migrations/a.hcl''],
      [CallNewFileRunner ''migrations/a.hcl'', CallApply ''migrations/a.hcl'',
       CallAddRecord ''a.hcl'', CallSave]) \<and>
   filename (file_runner ''a.hcl'' [(''a.hcl'', ''state'', ''migrations/a.hcl'')]) \<noteq> [] \<and>
   AlreadyApplied (abc_env False)
     (hc (file_runner ''a.hcl'' [(''a.hcl'', ''state'', ''migrations/a.hcl'')]))
     (filename (file_runner ''a.hcl'' [(''a.hcl'', ''state'', ''migrations/a.hcl'')])) \<and>
   Apply (abc_env False)
     (file_runner ''a.hcl'' [(''a.hcl'', ''state'', ''migrations/a.hcl'')])
     [''migrations/a.hcl''] =
     (Some (Error ''a migration has already been applied: a.hcl''),
      file_runner ''a.hcl'' [(''a.hcl'', ''state'', ''migrations/a.hcl'')],
      [''migrations/a.hcl''], []) \<and>
   Plan (abc_env False)
     (file_runner ''a.hcl'' [(''a.hcl'', ''state'', ''migrations/a.hcl'')])
     [''migrations/a.hcl''] =
     (Some (Error ''a migration has already been applied: a.hcl''), [''migrations/a.hcl''], [])"
proof -
  let ?r1 = "file_runner ''a.hcl'' [(''a.hcl'', ''state'', ''migrations/a.hcl'')]"
  have first: "Apply (abc_env False) (file_runner ''a.hcl'' []) [] =
     (None, ?r1, [''migrations/a.hcl''],
      [CallNewFileRunner ''migrations/a.hcl'', CallApply ''migrations/a.hcl'',
       CallAddRecord ''a.hcl'', CallSave])"
    by (simp add: example_simps Apply_def Apply_deferred_def)
  have f: "filename ?r1 \<noteq> []" by (simp add: example_simps)
  have a: "AlreadyApplied (abc_env False) (hc ?r1) (filename ?r1)"
    by (simp add: example_simps)
  from already_applied_is_refused [OF f a, of "[''migrations/a.hcl'']"]
  have second: "Apply (abc_env False) ?r1 [''migrations/a.hcl''] =
       (Some (Error ''a migration has already been applied: a.hcl''), ?r1,
        [''migrations/a.hcl''], []) \<and>
     Plan (abc_env False) ?r1 [''migrations/a.hcl''] =
       (Some (Error ''a migration has already been applied: a.hcl''), [''migrations/a.hcl''], [])"
    by (simp add: file_runner_def)
  from first f a second show ?thesis by blast
qed

lemma applyFile_applies:
  "file_applies env r name w = Some (r1, w1) \<Longrightarrow>
   applyFile env r name w = (None, r1, w1, calls_of_applied env r [name])"
  by (auto simp: file_applies_def applyFile_def resolvePath_def calls_of_applied_def Let_def
           split: if_splits sum.splits prod.splits option.splits)

lemma applyFile_fails:
  "file_fails env r name w = Some (err, w1, calls) \<Longrightarrow>
   applyFile env r name w = (Some err, r, w1, calls)"
  by (auto simp: file_fails_def applyFile_def resolvePath_def Let_def
           split: if_splits sum.splits prod.splits option.splits)

lemma file_applies_migrationDir:
  "file_applies env r name w = Some (r1, w1) \<Longrightarrow> migrationDir r1 = migrationDir r"
  by (auto simp: file_applies_def split: if_splits sum.splits prod.splits option.splits)

lemma calls_of_applied_Cons:
  "migrationDir r1 = migrationDir r \<Longrightarrow>
   calls_of_applied env r (name # names) =
     calls_of_applied env r [name] @ calls_of_applied env r1 names"
  by (simp add: calls_of_applied_def)

lemma applyFiles_apply:
  "files_apply env r names w = Some (r1, w1) \<Longrightarrow>
   applyFiles env r names w = (None, r1, w1, calls_of_applied env r names)"
proof (induction names arbitrary: r w)
  case Nil
  then show ?case by (simp add: calls_of_applied_def)
next
  case (Cons name names)
  then obtain r' w' where f: "file_applies env r name w = Some (r', w')"
    and rest: "files_apply env r' names w' = Some (r1, w1)"
    by (auto split: option.splits)
  from applyFile_applies [OF f] Cons.IH [OF rest]
    calls_of_applied_Cons [OF file_applies_migrationDir [OF f], of env name names]
  show ?case by simp
qed

lemma applyFiles_apply_then_fail:
  assumes "files_apply env r pre w = Some (r1, w1)"
    and "file_fails env r1 name w1 = Some (err, w2, calls2)"
  shows "applyFiles env r (pre @ name # post) w =
           (Some err, r1, w2, calls_of_applied env r pre @ calls2)"
  using applyFiles_first_failure [OF applyFiles_apply [OF assms(1)] applyFile_fails [OF assms(2)]]
  by simp

lemma Apply_saved:
  "Apply_body env r w = (res, r1, w1, calls) \<Longrightarrow> Save env (hc r1) w1 = (None, w2) \<Longrightarrow>
   Apply env r w = saved env r (res, r1, w1, calls) w2"
  by (auto simp: Apply_def Apply_deferred_def saved_def Let_def)

text \<open>
  C8. In directory mode the run goes through the unapplied files in their order. With
  nothing unapplied, \<^verbatim>\<open>applyDir\<close> and \<^verbatim>\<open>Apply\<close> succeed and do nothing. When
  every file applies, \<^verbatim>\<open>applyDir\<close> succeeds; its calls are, for each file in turn, its
  file runner, its apply and then its record, and each file's record is in the history
  before the next file is applied. When the files \<open>pre\<close> before some file apply and
  that file fails, \<^verbatim>\<open>applyDir\<close> returns that file's error; the history holds the
  records of \<open>pre\<close> and none for the failing file, and after the calls of \<open>pre\<close> come
  only those of the failing file: no later file is touched. \<^verbatim>\<open>Apply\<close> hands the
  result of \<^verbatim>\<open>applyDir\<close> on, the error of the failing file included, when the history
  is saved without error.
\<close>

theorem directory_run_in_order_until_failure:
  "(UnappliedMigrations env (hc r) = [] \<longrightarrow>
      applyDir env r w = (None, r, w, []) \<and>
      (filename r = [] \<longrightarrow> Apply env r w = (None, r, w, []))) \<and>
   (UnappliedMigrations env (hc r) = names \<longrightarrow>
    files_apply env r names w = Some (r1, w1) \<longrightarrow>
      applyDir env r w = (None, r1, w1, calls_of_applied env r names) \<and>
      (filename r = [] \<longrightarrow> Save env (hc r1) w1 = (None, w2) \<longrightarrow>
         Apply env r w = saved env r (None, r1, w1, calls_of_applied env r names) w2)) \<and>
   (UnappliedMigrations env (hc r) = pre @ name # post \<longrightarrow>
    files_apply env r pre w = Some (r1, w1) \<longrightarrow>
    file_fails env r1 name w1 = Some (err, w3, calls3) \<longrightarrow>
      applyDir env r w = (Some err, r1, w3, calls_of_applied env r pre @ calls3) \<and>
      (filename r = [] \<longrightarrow> Save env (hc r1) w3 = (None, w4) \<longrightarrow>
         Apply env r w =
           saved env r (Some err, r1, w3, calls_of_applied env r pre @ calls3) w4))"
proof (intro conjI impI)
  assume "UnappliedMigrations env (hc r) = []"
  then show "applyDir env r w = (None, r, w, [])" by (simp add: applyDir_def)
next
  assume "UnappliedMigrations env (hc r) = []" and "filename r = []"
  then show "Apply env r w = (None, r, w, [])"
    by (simp add: Apply_def Apply_deferred_def Apply_body_def applyDir_def Let_def)
next
  assume u: "UnappliedMigrations env (hc r) = names"
    and f: "files_apply env r names w = Some (r1, w1)"
  from applyFiles_apply [OF f] u
  show d: "applyDir env r w = (None, r1, w1, calls_of_applied env r names)"
    by (cases names) (auto simp: applyDir_def Let_def calls_of_applied_def)
  assume "filename r = []" and s: "Save env (hc r1) w1 = (None, w2)"
  with d have "Apply_body env r w = (None, r1, w1, calls_of_applied env r names)"
    by (simp add: Apply_body_def)
  from Apply_saved [OF this s]
  show "Apply env r w = saved env r (None, r1, w1, calls_of_applied env r names) w2" .
next
  assume u: "UnappliedMigrations env (hc r) = pre @ name # post"
    and p: "files_apply env r pre w = Some (r1, w1)"
    and f: "file_fails env r1 name w1 = Some (err, w3, calls3)"
  from applyFiles_apply_then_fail [OF p f, of post] u
  show d: "applyDir env r w = (Some err, r1, w3, calls_of_applied env r pre @ calls3)"
    by (simp add: applyDir_def)
  assume "filename r = []" and s: "Save env (hc r1) w3 = (None, w4)"
  with d have "Apply_body env r w = (Some err, r1, w3, calls_of_applied env r pre @ calls3)"
    by (simp add: Apply_body_def)
  from Apply_saved [OF this s]
  show "Apply env r w = saved env r (Some err, r1, w3, calls_of_applied env r pre @ calls3) w4" .
qed

theorem directory_run_in_order_until_failure_witness:
  "filename dir_runner = [] \<and>
   UnappliedMigrations (abc_env False) (hc dir_runner) = [''a.hcl''] @ ''b.hcl'' # [''c.hcl''] \<and>
   files_apply (abc_env False) dir_runner [''a.hcl''] [] =
     Some (dir_runner\<lparr>hc := [(''a.hcl'', ''state'', ''migrations/a.hcl'')]\<rparr>,
           [''migrations/a.hcl'']) \<and>
   file_fails (abc_env False)
     (dir_runner\<lparr>hc := [(''a.hcl'', ''state'', ''migrations/a.hcl'')]\<rparr>)
     ''b.hcl'' [''migrations/a.hcl''] =
     Some (Error ''apply failed: migrations/b.hcl'', [''migrations/a.hcl''],
           [CallNewFileRunner ''migrations/b.hcl'', CallApply ''migrations/b.hcl'']) \<and>
   Save (abc_env False) [(''a.hcl'', ''state'', ''migrations/a.hcl'')] [''migrations/a.hcl''] =
     (None, [''migrations/a.hcl'']) \<and>
   applyDir (abc_env False) dir_runner [] =
     (Some (Error ''apply failed: migrations/b.hcl''),
      dir_runner\<lparr>hc := [(''a.hcl'', ''state'', ''migrations/a.hcl'')]\<rparr>,
      [''migrations/a.hcl''],
      [CallNewFileRunner ''migrations/a.hcl'', CallApply ''migrations/a.hcl'',
       CallAddRecord ''a.hcl'', CallNewFileRunner ''migrations/b.hcl'',
       CallApply ''migrations/b.hcl'']) \<and>
   Apply (abc_env False) dir_runner [] =
     (Some (Error ''apply failed: migrations/b.hcl''),
      dir_runner\<lparr>hc := [(''a.hcl'', ''state'', ''migrations/a.hcl'')]\<rparr>,
      [''migrations/a.hcl''],
      [CallNewFileRunner ''migrations/a.hcl'', CallApply ''migrations/a.hcl'',
       CallAddRecord ''a.hcl'', CallNewFileRunner ''migrations/b.hcl'',
       CallApply ''migrations/b.hcl'', CallSave]) \<and>
   UnappliedMigrations ab_env (hc dir_runner) = [''a.hcl'', ''b.hcl''] \<and>
   files_apply ab_env dir_runner [''a.hcl'', ''b.hcl''] [] =
     Some (dir_runner\<lparr>hc := [(''a.hcl'', ''state'', ''migrations/a.hcl''),
                                (''b.hcl'', ''state'', ''migrations/b.hcl'')]\<rparr>,
           [''migrations/a.hcl'', ''migrations/b.hcl'']) \<and>
   Apply ab_env dir_runner [] =
     (None,
      dir_runner\<lparr>hc := [(''a.hcl'', ''state'', ''migrations/a.hcl''),
                          (''b.hcl'', ''state'', ''migrations/b.hcl'')]\<rparr>,
      [''migrations/a.hcl'', ''migrations/b.hcl''],
      [CallNewFileRunner ''migrations/a.hcl'', CallApply ''migrations/a.hcl'',
       CallAddRecord ''a.hcl'', CallNewFileRunner ''migrations/b.hcl'',
       CallApply ''migrations/b.hcl'', CallAddRecord ''b.hcl'', CallSave]) \<and>
   UnappliedMigrations ab_env
     [(''a.hcl'', ''state'', ''migrations/a.hcl''), (''b.hcl'', ''state'', ''migrations/b.hcl'')] = [] \<and>
   Apply ab_env
     (dir_runner\<lparr>hc := [(''a.hcl'', ''state'', ''migrations/a.hcl''),
                          (''b.hcl'', ''state'', ''migrations/b.hcl'')]\<rparr>)
     [''migrations/a.hcl'', ''migrations/b.hcl''] =
     (None,
      dir_runner\<lparr>hc := [(''a.hcl'', ''state'', ''migrations/a.hcl''),
                          (''b.hcl'', ''state'', ''migrations/b.hcl'')]\<rparr>,
      [''migrations/a.hcl'', ''migrations/b.hcl''], [])"
proof -
  let ?h1 = "[(''a.hcl'', ''state'', ''migrations/a.hcl'')]"
  let ?h2 = "[(''a.hcl'', ''state'', ''migrations/a.hcl''),
              (''b.hcl'', ''state'', ''migrations/b.hcl'')]"
  let ?r1 = "dir_runner\<lparr>hc := ?h1\<rparr>"
  let ?r2 = "dir_runner\<lparr>hc := ?h2\<rparr>"
  let ?w1 = "[''migrations/a.hcl'']"
  let ?w2 = "[''migrations/a.hcl'', ''migrations/b.hcl'']"
  let ?cb = "[CallNewFileRunner ''migrations/b.hcl'', CallApply ''migrations/b.hcl'']"
  let ?eb = "Error ''apply failed: migrations/b.hcl''"
  note defs = example_simps ab_env_def file_applies_def file_fails_def calls_of_applied_def
    saved_def
  have d: "filename dir_runner = []" by (simp add: defs)
  have u: "UnappliedMigrations (abc_env False) (hc dir_runner) =
             [''a.hcl''] @ ''b.hcl'' # [''c.hcl'']" by (simp add: defs)
  have p: "files_apply (abc_env False) dir_runner [''a.hcl''] [] = Some (?r1, ?w1)"
    by (simp add: defs)
  have f: "file_fails (abc_env False) ?r1 ''b.hcl'' ?w1 = Some (?eb, ?w1, ?cb)"
    by (simp add: defs)
  have s: "Save (abc_env False) (hc ?r1) ?w1 = (None, ?w1)" by (simp add: defs)
  have u2: "UnappliedMigrations ab_env (hc dir_runner) = [''a.hcl'', ''b.hcl'']"
    by (simp add: defs)
  have p2: "files_apply ab_env dir_runner [''a.hcl'', ''b.hcl''] [] = Some (?r2, ?w2)"
    by (simp add: defs)
  have s2: "Save ab_env (hc ?r2) ?w2 = (None, ?w2)" by (simp add: defs)
  have u3: "UnappliedMigrations ab_env (hc ?r2) = []" by (simp add: defs)
  have d3: "filename ?r2 = []" by (simp add: defs)
  note t1 = directory_run_in_order_until_failure
    [where env = "abc_env False" and r = dir_runner and w = "[]" and pre = "[''a.hcl'']"
       and name = "''b.hcl''" and post = "[''c.hcl'']" and ?r1.0 = ?r1 and ?w1.0 = ?w1
       and err = ?eb and ?w3.0 = ?w1 and ?calls3.0 = ?cb and ?w4.0 = ?w1]
  note t2 = directory_run_in_order_until_failure
    [where env = ab_env and r = dir_runner and w = "[]" and names = "[''a.hcl'', ''b.hcl'']"
       and ?r1.0 = ?r2 and ?w1.0 = ?w2 and ?w2.0 = ?w2]
  note t3 = directory_run_in_order_until_failure
    [where env = ab_env and r = ?r2 and w = ?w2]
  from t1 d u p f s have
    a1: "applyDir (abc_env False) dir_runner [] =
           (Some ?eb, ?r1, ?w1, calls_of_applied (abc_env False) dir_runner [''a.hcl''] @ ?cb)"
    and b1: "Apply (abc_env False) dir_runner [] =
           saved (abc_env False) dir_runner
             (Some ?eb, ?r1, ?w1, calls_of_applied (abc_env False) dir_runner [''a.hcl''] @ ?cb)
             ?w1"
    by blast+
  from t2 d u2 p2 s2 have
    b2: "Apply ab_env dir_runner [] =
           saved ab_env dir_runner
             (None, ?r2, ?w2, calls_of_applied ab_env dir_runner [''a.hcl'', ''b.hcl'']) ?w2"
    by blast
  from t3 d3 u3 have b3: "Apply ab_env ?r2 ?w2 = (None, ?r2, ?w2, [])" by blast
  from d u p f s a1 b1 u2 p2 b2 u3 b3 show ?thesis by (simp add: defs)
qed

end
